theory Spec2Isabelle
  imports Complex_Main "HOL-Library.Multiset"
begin

section \<open>Tensors and errors\<close>

text \<open>
  The two source files manipulate PyTorch tensors of rank one and two. A rank-one tensor
  is its list of entries; a rank-two tensor of shape (r, c) is its list of r rows together
  with the column count c, which a tensor with zero rows still has. Every raise of the
  library is a value of \<open>error\<close>.
\<close>

datatype error = RuntimeError | IndexError | ValueError | AttributeError

datatype 'a tensor = Tensor1 "'a list" | Tensor2 nat "'a list list"

definition bind_e :: "error + 'a \<Rightarrow> ('a \<Rightarrow> error + 'b) \<Rightarrow> error + 'b" where
  "bind_e m f = (case m of Inl e \<Rightarrow> Inl e | Inr v \<Rightarrow> f v)"

text \<open>\<open>t.dim()\<close>\<close>

fun dim_t :: "'a tensor \<Rightarrow> nat" where
  "dim_t (Tensor1 xs) = 1"
| "dim_t (Tensor2 c rs) = 2"

text \<open>\<open>t.size(d)\<close>; a dimension outside the rank raises IndexError.\<close>

fun size_t :: "'a tensor \<Rightarrow> int \<Rightarrow> error + nat" where
  "size_t (Tensor1 xs) d = (if d = 0 \<or> d = -1 then Inr (length xs) else Inl IndexError)"
| "size_t (Tensor2 c rs) d =
     (if d = 0 \<or> d = -2 then Inr (length rs)
      else if d = 1 \<or> d = -1 then Inr c
      else Inl IndexError)"

text \<open>\<open>len(t)\<close>, the size of the first dimension.\<close>

fun len_t :: "'a tensor \<Rightarrow> nat" where
  "len_t (Tensor1 xs) = length xs"
| "len_t (Tensor2 c rs) = length rs"

text \<open>
  \<open>torch.cat([a, b], dim=0)\<close>: the shapes must agree outside dimension 0; a rank-one
  tensor of shape (0,) is skipped.
\<close>

fun cat0 :: "'a tensor \<Rightarrow> 'a tensor \<Rightarrow> error + 'a tensor" where
  "cat0 (Tensor1 xs) (Tensor1 ys) = Inr (Tensor1 (xs @ ys))"
| "cat0 (Tensor1 xs) (Tensor2 c rs) = (if xs = [] then Inr (Tensor2 c rs) else Inl RuntimeError)"
| "cat0 (Tensor2 c rs) (Tensor1 ys) = (if ys = [] then Inr (Tensor2 c rs) else Inl RuntimeError)"
| "cat0 (Tensor2 c rs) (Tensor2 c' rs') =
     (if c = c' then Inr (Tensor2 c (rs @ rs')) else Inl RuntimeError)"

text \<open>
  \<open>torch.cat([a, b], dim=1)\<close>: the row counts must agree; a rank-one tensor of shape
  (0,) is skipped, any other rank-one tensor has no dimension 1.
\<close>

fun cat1 :: "'a tensor \<Rightarrow> 'a tensor \<Rightarrow> error + 'a tensor" where
  "cat1 (Tensor1 xs) (Tensor1 ys) =
     (if xs = [] \<and> ys = [] then Inr (Tensor1 []) else Inl IndexError)"
| "cat1 (Tensor1 xs) (Tensor2 c rs) = (if xs = [] then Inr (Tensor2 c rs) else Inl RuntimeError)"
| "cat1 (Tensor2 c rs) (Tensor1 ys) = (if ys = [] then Inr (Tensor2 c rs) else Inl RuntimeError)"
| "cat1 (Tensor2 c rs) (Tensor2 c' rs') =
     (if length rs = length rs' then Inr (Tensor2 (c + c') (map2 (@) rs rs'))
      else Inl RuntimeError)"

text \<open>\<open>t + n\<close> for a scalar n.\<close>

fun add_scalar :: "int tensor \<Rightarrow> int \<Rightarrow> int tensor" where
  "add_scalar (Tensor1 xs) n = Tensor1 (map (\<lambda>v. v + n) xs)"
| "add_scalar (Tensor2 c rs) n = Tensor2 c (map (map (\<lambda>v. v + n)) rs)"

text \<open>
  \<open>torch.tensor(rows)\<close> for a Python list of lists: the empty list gives the rank-one
  tensor of shape (0,); rows of different lengths raise ValueError.
\<close>

definition torch_tensor :: "'a list list \<Rightarrow> error + 'a tensor" where
  "torch_tensor rows =
     (case rows of
        [] \<Rightarrow> Inr (Tensor1 [])
      | r # rs \<Rightarrow> if list_all (\<lambda>r'. length r' = length r) rs
                 then Inr (Tensor2 (length r) rows) else Inl ValueError)"

text \<open>\<open>t.t()\<close>: a rank-one tensor is returned as it is.\<close>

fun t_t :: "'a tensor \<Rightarrow> 'a tensor" where
  "t_t (Tensor1 xs) = Tensor1 xs"
| "t_t (Tensor2 c rs) = Tensor2 (length rs) (map (\<lambda>k. map (\<lambda>r. r ! k) rs) [0..<c])"

text \<open>\<open>torch.zeros((r, c))\<close> and \<open>torch.zeros(n)\<close>\<close>

definition zeros2 :: "nat \<Rightarrow> nat \<Rightarrow> real tensor" where
  "zeros2 r c = Tensor2 c (replicate r (replicate c 0))"

definition zeros1 :: "nat \<Rightarrow> int tensor" where
  "zeros1 n = Tensor1 (replicate n 0)"

section \<open>Graphs\<close>

text \<open>
  numpy's float64 results: a finite value, an infinity or NaN. Only the label
  normalisation can leave the finite values (it divides).
\<close>

datatype npfloat = Fin real | PosInf | NegInf | NaN

text \<open>
  A \<open>torch_geometric.data.Data\<close> object with the attributes the source reads and writes.
\<close>

record data =
  data_x :: "real tensor"
  data_edge_index :: "int tensor"
  data_edge_attr :: "real tensor"
  data_batch :: "int tensor option"
  data_y :: "npfloat tensor option"

text \<open>\<open>data.num_nodes\<close>, which PyG reads off the first dimension of \<open>x\<close>.\<close>

definition num_nodes :: "data \<Rightarrow> nat" where
  "num_nodes g = len_t (data_x g)"

text \<open>The directed edges of a (2, E) edge index, column by column.\<close>

fun edges_of :: "int tensor \<Rightarrow> (int \<times> int) list" where
  "edges_of (Tensor2 c [src, dst]) = zip src dst"
| "edges_of t = []"

section \<open>build_joint_graph (Graph_Retriever/train_re_ranker.py)\<close>

text \<open>
  The inner loop over \<open>j\<close> and the outer loop over \<open>i\<close>, each appending to the list
  \<open>cross_edges\<close> accumulated so far.
\<close>

definition cross_inner :: "nat \<Rightarrow> nat \<Rightarrow> nat \<Rightarrow> int list list \<Rightarrow> int list list" where
  "cross_inner N_q N_c i acc =
     foldl (\<lambda>a j. a @ [[int i, int (N_q + j)], [int (N_q + j), int i]]) acc [0..<N_c]"

definition cross_edges_list :: "nat \<Rightarrow> nat \<Rightarrow> int list list" where
  "cross_edges_list N_q N_c = foldl (\<lambda>a i. cross_inner N_q N_c i a) [] [0..<N_q]"

text \<open>
  \<open>preprocess_graph\<close> (utils/graph_utils.py) is not part of the sources at hand; it is
  the parameter \<open>pre\<close>.
\<close>

definition build_joint_graph ::
  "(data \<Rightarrow> data) \<Rightarrow> data \<Rightarrow> data \<Rightarrow> npfloat option \<Rightarrow> error + data" where
  "build_joint_graph pre q_data0 c_data0 label_diff =
     (let q_data = pre q_data0; c_data = pre c_data0;
          N_q = num_nodes q_data; N_c = num_nodes c_data
      in bind_e (cat0 (data_x q_data) (data_x c_data)) (\<lambda>x.
         bind_e (cat1 (data_edge_index q_data)
                      (add_scalar (data_edge_index c_data) (int N_q))) (\<lambda>edge_index.
         bind_e (cat0 (data_edge_attr q_data) (data_edge_attr c_data)) (\<lambda>edge_attr.
         bind_e (torch_tensor (cross_edges_list N_q N_c)) (\<lambda>ce.
         let cross_edges = t_t ce
         in bind_e (cat1 edge_index cross_edges) (\<lambda>edge_index'.
            bind_e (size_t cross_edges 1) (\<lambda>n_cross.
            bind_e (size_t edge_attr 1) (\<lambda>width.
            let cross_attr = zeros2 n_cross width
            in bind_e (cat0 edge_attr cross_attr) (\<lambda>edge_attr'.
               let batch = zeros1 (N_q + N_c);
                   y = (case label_diff of None \<Rightarrow> None | Some d \<Rightarrow> Some (Tensor1 [d]))
               in Inr \<lparr> data_x = x, data_edge_index = edge_index',
                        data_edge_attr = edge_attr', data_batch = Some batch,
                        data_y = y \<rparr>)))))))))"

text \<open>
  The bridge edges as (source, target) pairs, in the order in which the two loops append
  them; the loops are shown below to produce exactly this list.
\<close>

definition bridge_pairs :: "nat \<Rightarrow> nat \<Rightarrow> (int \<times> int) list" where
  "bridge_pairs N_q N_c =
     concat (map (\<lambda>i. concat (map (\<lambda>j. [(int i, int (N_q + j)), (int (N_q + j), int i)])
                                 [0..<N_c])) [0..<N_q])"

text \<open>The rows of a tensor, the number of edges of a graph, and a node-id shift of an edge.\<close>

fun rows_of :: "'a tensor \<Rightarrow> 'a list list" where
  "rows_of (Tensor2 c rs) = rs"
| "rows_of (Tensor1 xs) = map (\<lambda>v. [v]) xs"

definition num_edges :: "data \<Rightarrow> nat" where
  "num_edges g = length (edges_of (data_edge_index g))"

text \<open>
  The Graph invariant: node features of width \<open>F_node\<close>, a (2, E) edge index whose two
  rows have E entries, and an (E, \<open>F_edge\<close>) edge-feature matrix.
\<close>

definition graph_ok :: "nat \<Rightarrow> nat \<Rightarrow> data \<Rightarrow> bool" where
  "graph_ok F_node F_edge g =
     (case (data_x g, data_edge_index g, data_edge_attr g) of
        (Tensor2 f rows, Tensor2 E [src, dst], Tensor2 fe attrs) \<Rightarrow>
           f = F_node \<and> fe = F_edge \<and> length src = E \<and> length dst = E \<and> length attrs = E
      | _ \<Rightarrow> False)"

definition shift_edge :: "nat \<Rightarrow> int \<times> int \<Rightarrow> int \<times> int" where
  "shift_edge n e = (fst e + int n, snd e + int n)"

text \<open>Sample graphs on which the theorems below are instantiated.\<close>

definition sample_A :: data where
  "sample_A = \<lparr> data_x = Tensor2 1 [[1], [2]], data_edge_index = Tensor2 1 [[0], [1]],
                data_edge_attr = Tensor2 1 [[5]], data_batch = None, data_y = None \<rparr>"

definition sample_B :: data where
  "sample_B = \<lparr> data_x = Tensor2 1 [[3], [4], [6]], data_edge_index = Tensor2 2 [[0, 2], [1, 0]],
                data_edge_attr = Tensor2 1 [[7], [8]], data_batch = None, data_y = None \<rparr>"

definition sample_empty :: data where
  "sample_empty = \<lparr> data_x = Tensor2 1 [], data_edge_index = Tensor2 0 [[], []],
                    data_edge_attr = Tensor2 1 [], data_batch = None, data_y = None \<rparr>"

section \<open>build_label_diff_dataset (Graph_Retriever/train_re_ranker.py)\<close>

text \<open>
  numpy's division and subtraction of float64 values: a zero divisor gives NaN or an
  infinity (with a warning), never an exception. The labels themselves are finite.
\<close>

definition np_div :: "real \<Rightarrow> real \<Rightarrow> npfloat" where
  "np_div a b =
     (if b \<noteq> 0 then Fin (a / b)
      else if a = 0 then NaN
      else if 0 < a then PosInf else NegInf)"

fun np_sub :: "npfloat \<Rightarrow> npfloat \<Rightarrow> npfloat" where
  "np_sub (Fin a) (Fin b) = Fin (a - b)"
| "np_sub NaN v = NaN"
| "np_sub v NaN = NaN"
| "np_sub PosInf PosInf = NaN"
| "np_sub NegInf NegInf = NaN"
| "np_sub PosInf v = PosInf"
| "np_sub NegInf v = NegInf"
| "np_sub (Fin a) PosInf = NegInf"
| "np_sub (Fin a) NegInf = PosInf"

text \<open>\<open>np.min\<close> and \<open>np.max\<close>: ValueError on an empty array.\<close>

fun np_min :: "real list \<Rightarrow> error + real" where
  "np_min [] = Inl ValueError"
| "np_min (l # ls) = Inr (fold min ls l)"

fun np_max :: "real list \<Rightarrow> error + real" where
  "np_max [] = Inl ValueError"
| "np_max (l # ls) = Inr (fold max ls l)"

definition norm_label :: "real \<Rightarrow> real \<Rightarrow> real \<Rightarrow> npfloat" where
  "norm_label min_label max_label l =
     np_sub (np_div (2 * (l - min_label)) (max_label - min_label)) (Fin 1)"

definition normalize_labels :: "real list \<Rightarrow> error + npfloat list" where
  "normalize_labels labels =
     bind_e (np_min labels) (\<lambda>min_label.
     bind_e (np_max labels) (\<lambda>max_label.
     Inr (map (norm_label min_label max_label) labels)))"

text \<open>\<open>xs[i]\<close> for a non-negative index.\<close>

definition index_e :: "'a list \<Rightarrow> nat \<Rightarrow> error + 'a" where
  "index_e xs i = (if i < length xs then Inr (xs ! i) else Inl IndexError)"

text \<open>
  \<open>random.sample(range(n), 2)\<close>: ValueError when the population has fewer than two
  elements, otherwise two positions chosen without replacement. The generator is
  the pair \<open>r\<close> of raw draws: the first picks a position among n, the second a position
  among the n - 1 that remain.
\<close>

definition random_sample2 :: "nat \<Rightarrow> nat \<times> nat \<Rightarrow> error + nat \<times> nat" where
  "random_sample2 n r =
     (if n < 2 then Inl ValueError
      else let i = fst r mod n; j = snd r mod (n - 1)
           in Inr (i, if j = i then n - 1 else j))"

text \<open>
  The loop over \<open>range(num_pairs)\<close>: \<open>rnd t\<close> holds the raw draws of iteration
  \<open>t\<close>, \<open>pairs\<close> is the list built so far.
\<close>

fun pairs_loop ::
  "(data \<Rightarrow> data) \<Rightarrow> data list \<Rightarrow> npfloat list \<Rightarrow> (nat \<Rightarrow> nat \<times> nat) \<Rightarrow> nat list \<Rightarrow>
   data list \<Rightarrow> error + data list" where
  "pairs_loop pre graphs norm_labels rnd [] pairs = Inr pairs"
| "pairs_loop pre graphs norm_labels rnd (t # ts) pairs =
     bind_e (random_sample2 (length graphs) (rnd t)) (\<lambda>s.
     let i = fst s; j = snd s
     in bind_e (index_e norm_labels i) (\<lambda>n_i.
        bind_e (index_e norm_labels j) (\<lambda>n_j.
        let label_diff = np_sub n_i n_j
        in bind_e (index_e graphs i) (\<lambda>g_i.
           bind_e (index_e graphs j) (\<lambda>g_j.
           bind_e (build_joint_graph pre g_i g_j (Some label_diff)) (\<lambda>joint_graph.
           pairs_loop pre graphs norm_labels rnd ts (pairs @ [joint_graph])))))))"

definition build_label_diff_dataset ::
  "(data \<Rightarrow> data) \<Rightarrow> data list \<Rightarrow> real list \<Rightarrow> nat \<Rightarrow> (nat \<Rightarrow> nat \<times> nat) \<Rightarrow> error + data list" where
  "build_label_diff_dataset pre graphs labels num_pairs rnd =
     bind_e (normalize_labels labels) (\<lambda>norm_labels.
     pairs_loop pre graphs norm_labels rnd [0..<num_pairs] [])"

text \<open>A sequence of raw draws on which the theorems below are instantiated.\<close>

definition sample_draws :: "nat \<Rightarrow> nat \<times> nat" where
  "sample_draws t = (t, 0)"

text \<open>
  What one iteration of the loop contributes: the joint graph of the two sampled, distinct
  positions, with their normalised label difference as target.
\<close>

definition pair_of ::
  "(data \<Rightarrow> data) \<Rightarrow> data list \<Rightarrow> npfloat list \<Rightarrow> nat \<times> nat \<Rightarrow> data \<Rightarrow> bool" where
  "pair_of pre graphs norm_labels r J \<longleftrightarrow>
     (\<exists>i j. random_sample2 (length graphs) r = Inr (i, j) \<and>
            i < length graphs \<and> j < length graphs \<and> i \<noteq> j \<and>
            build_joint_graph pre (graphs ! i) (graphs ! j)
              (Some (np_sub (norm_labels ! i) (norm_labels ! j))) = Inr J \<and>
            data_y J = Some (Tensor1 [np_sub (norm_labels ! i) (norm_labels ! j)]))"

text \<open>The identity, for instantiating the parameter \<open>pre\<close> at graphs that are already encoded.\<close>

definition preprocess_identity :: "data \<Rightarrow> data" where
  "preprocess_identity g = g"

section \<open>GraphTransformerEncoder.forward (Siamese-Graphormer/network/encoder.py)\<close>

text \<open>\<open>t.max()\<close>: RuntimeError on a tensor without elements.\<close>

fun torch_max :: "int tensor \<Rightarrow> error + int" where
  "torch_max (Tensor1 []) = Inl RuntimeError"
| "torch_max (Tensor1 (v # vs)) = Inr (fold max vs v)"
| "torch_max (Tensor2 c rs) =
     (case concat rs of [] \<Rightarrow> Inl RuntimeError | v # vs \<Rightarrow> Inr (fold max vs v))"

text \<open>\<open>torch.arange(a, b)\<close>: the integers from a up to b - 1; RuntimeError when b < a.\<close>

definition arange :: "int \<Rightarrow> int \<Rightarrow> error + int tensor" where
  "arange a b = (if b < a then Inl RuntimeError else Inr (Tensor1 [a..b - 1]))"

text \<open>
  \<open>t.bincount()\<close>: for a rank-one tensor of non-negative integers, the number of
  occurrences of each value from 0 to the largest one; RuntimeError otherwise.
\<close>

fun bincount :: "int tensor \<Rightarrow> error + int tensor" where
  "bincount (Tensor1 vs) =
     (if list_ex (\<lambda>v. v < 0) vs then Inl RuntimeError
      else Inr (Tensor1 (map (\<lambda>k. int (count_list vs k)) [0..fold max vs (- 1)])))"
| "bincount (Tensor2 c rs) = Inl RuntimeError"

text \<open>
  \<open>t.repeat_interleave(repeats)\<close> for rank-one tensors: entry k is repeated
  \<open>repeats[k]\<close> times; a single repeat count is used for every entry; RuntimeError on a
  negative count or on sizes that do not match.
\<close>

fun repeat_interleave :: "int tensor \<Rightarrow> int tensor \<Rightarrow> error + int tensor" where
  "repeat_interleave (Tensor1 vs) (Tensor1 reps) =
     (if list_ex (\<lambda>r. r < 0) reps then Inl RuntimeError
      else if length reps = length vs
        then Inr (Tensor1 (concat (map2 (\<lambda>v r. replicate (nat r) v) vs reps)))
      else if length reps = 1
        then Inr (Tensor1 (concat (map (\<lambda>v. replicate (nat (hd reps)) v) vs)))
      else Inl RuntimeError)"
| "repeat_interleave t reps = Inl RuntimeError"

text \<open>
  \<open>torch.stack([a, b], dim=0)\<close> of two rank-one tensors, and \<open>t[i]\<close>, row i of a
  rank-two tensor. \<open>forward\<close> stacks only results of \<open>repeat_interleave\<close>, \<open>arange\<close> and
  \<open>t[i]\<close>, and indexes only a concatenation with the rank-two \<open>virtual_edges\<close>; the other
  ranks, whose results would have rank three or zero, do not arise and are an error here.
\<close>

fun stack0 :: "'a tensor \<Rightarrow> 'a tensor \<Rightarrow> error + 'a tensor" where
  "stack0 (Tensor1 a) (Tensor1 b) =
     (if length a = length b then Inr (Tensor2 (length a) [a, b]) else Inl RuntimeError)"
| "stack0 s t = Inl RuntimeError"

fun row_at :: "'a tensor \<Rightarrow> nat \<Rightarrow> error + 'a tensor" where
  "row_at (Tensor2 c rs) i = (if i < length rs then Inr (Tensor1 (rs ! i)) else Inl IndexError)"
| "row_at (Tensor1 xs) i = Inl IndexError"

text \<open>\<open>t.unsqueeze(-1)\<close> of a rank-one tensor.\<close>

fun unsqueeze_last :: "'a tensor \<Rightarrow> 'a tensor" where
  "unsqueeze_last (Tensor1 xs) = Tensor2 1 (map (\<lambda>v. [v]) xs)"
| "unsqueeze_last t = t"

text \<open>\<open>t[-n:]\<close>, Python's slice of the first dimension.\<close>

definition slice_from :: "nat \<Rightarrow> int \<Rightarrow> nat" where
  "slice_from len n = (if 0 < n then len - nat n else min len (nat (- n)))"

fun slice_last :: "'a tensor \<Rightarrow> int \<Rightarrow> 'a tensor" where
  "slice_last (Tensor1 xs) n = Tensor1 (drop (slice_from (length xs) n) xs)"
| "slice_last (Tensor2 c rs) n = Tensor2 c (drop (slice_from (length rs) n) rs)"

text \<open>
  \<open>nn.Linear\<close>: applied to each row; RuntimeError when the last dimension is not
  \<open>in_features\<close>. The affine map on a row (weight and bias) is \<open>row_map\<close>.
\<close>

record linear =
  in_features :: nat
  out_features :: nat
  row_map :: "real list \<Rightarrow> real list"

fun linear_apply :: "linear \<Rightarrow> real tensor \<Rightarrow> error + real tensor" where
  "linear_apply l (Tensor1 xs) =
     (if length xs = in_features l then Inr (Tensor1 (row_map l xs)) else Inl RuntimeError)"
| "linear_apply l (Tensor2 c rs) =
     (if c = in_features l then Inr (Tensor2 (out_features l) (map (row_map l) rs))
      else Inl RuntimeError)"

text \<open>
  The encoder's parameters. \<open>virtual_token\<close> is the single row of the (1, hidden_channels)
  parameter. \<open>EdgeConditionedGraphAttention\<close> (network/edge_attention.py) is not part of the
  sources at hand: each layer is a function of the node features, the edge index and the
  edge features.
\<close>

type_synonym layer = "real tensor \<Rightarrow> int tensor \<Rightarrow> real tensor \<Rightarrow> error + real tensor"

record encoder =
  virtual_token :: "real list"
  input_proj :: linear
  layers :: "layer list"
  output_proj :: linear

text \<open>\<open>self.virtual_token.repeat(batch_size, 1)\<close>\<close>

definition repeat_token :: "real list \<Rightarrow> int \<Rightarrow> error + real tensor" where
  "repeat_token v n =
     (if n < 0 then Inl RuntimeError else Inr (Tensor2 (length v) (replicate (nat n) v)))"

text \<open>
  Lines 24 and 25: \<open>if edge_attr is not None and edge_attr.dim() == 1:
  edge_attr = edge_attr.unsqueeze(-1)\<close>.
\<close>

definition promote_edge_attr :: "real tensor option \<Rightarrow> real tensor option" where
  "promote_edge_attr edge_attr =
     (case edge_attr of
        None \<Rightarrow> None
      | Some ea \<Rightarrow> if dim_t ea = 1 then Some (unsqueeze_last ea) else Some ea)"

text \<open>The values at hand after line 47 of \<open>forward\<close>.\<close>

record augmented =
  aug_x :: "real tensor"
  aug_edge_index :: "int tensor"
  aug_edge_attr :: "real tensor"
  aug_batch :: "int tensor"
  aug_batch_size :: int

definition forward_augment ::
  "encoder \<Rightarrow> real tensor \<Rightarrow> int tensor \<Rightarrow> real tensor option \<Rightarrow> int tensor \<Rightarrow>
   error + augmented" where
  "forward_augment enc x0 edge_index edge_attr0 batch =
     bind_e (linear_apply (input_proj enc) x0) (\<lambda>x1.
     let edge_attr = promote_edge_attr edge_attr0
     in bind_e (torch_max batch) (\<lambda>m.
        let batch_size = m + 1
        in bind_e (repeat_token (virtual_token enc) batch_size) (\<lambda>virtual.
           bind_e (cat0 x1 virtual) (\<lambda>x.
           bind_e (arange (int (len_t x) - batch_size) (int (len_t x))) (\<lambda>virtual_index.
           bind_e (bincount batch) (\<lambda>counts.
           bind_e (repeat_interleave virtual_index counts) (\<lambda>repeated_virtual.
           bind_e (arange 0 (int (len_t batch))) (\<lambda>all_nodes.
           bind_e (stack0 repeated_virtual all_nodes) (\<lambda>virtual_edges.
           bind_e (cat1 edge_index virtual_edges) (\<lambda>new_edge_index.
           bind_e (row_at new_edge_index 1) (\<lambda>r1.
           bind_e (row_at new_edge_index 0) (\<lambda>r0.
           bind_e (stack0 r1 r0) (\<lambda>reversed_edge_index.
           bind_e (cat1 new_edge_index reversed_edge_index) (\<lambda>new_edge_index'.
           bind_e (size_t virtual_edges 1) (\<lambda>n_virtual.
           bind_e (case edge_attr of None \<Rightarrow> Inl AttributeError
                   | Some ea \<Rightarrow> size_t ea (- 1)) (\<lambda>width.
           let zero_virtual_edge_attr = zeros2 n_virtual width
           in bind_e (case edge_attr of None \<Rightarrow> Inl AttributeError
                      | Some ea \<Rightarrow> cat0 ea zero_virtual_edge_attr) (\<lambda>new_edge_attr.
              bind_e (cat0 new_edge_attr new_edge_attr) (\<lambda>new_edge_attr'.
              bind_e (arange 0 batch_size) (\<lambda>ids.
              bind_e (cat0 batch ids) (\<lambda>batch'.
              Inr \<lparr> aug_x = x, aug_edge_index = new_edge_index',
                    aug_edge_attr = new_edge_attr', aug_batch = batch',
                    aug_batch_size = batch_size \<rparr>))))))))))))))))))))"

text \<open>The loop over \<open>self.layers\<close>.\<close>

fun run_layers :: "layer list \<Rightarrow> real tensor \<Rightarrow> int tensor \<Rightarrow> real tensor \<Rightarrow> error + real tensor" where
  "run_layers [] x ei ea = Inr x"
| "run_layers (l # ls) x ei ea = bind_e (l x ei ea) (\<lambda>x'. run_layers ls x' ei ea)"

definition forward ::
  "encoder \<Rightarrow> real tensor \<Rightarrow> int tensor \<Rightarrow> real tensor option \<Rightarrow> int tensor \<Rightarrow>
   error + real tensor" where
  "forward enc x edge_index edge_attr batch =
     bind_e (forward_augment enc x edge_index edge_attr batch) (\<lambda>a.
     bind_e (run_layers (layers enc) (aug_x a) (aug_edge_index a) (aug_edge_attr a)) (\<lambda>x'.
     linear_apply (output_proj enc) (slice_last x' (aug_batch_size a))))"

text \<open>
  A layer and an encoder on which the theorems below are instantiated. The layer is
  configured for hidden width 1 and edge features of width 1: it raises on node features
  of another width, on edge features of another width and on edge features that do not
  have one row per edge, and doubles the node features otherwise. The encoder has hidden
  width 1, identity projections and two such layers.
\<close>

fun sample_layer :: layer where
  "sample_layer (Tensor2 c rs) (Tensor2 e idx) (Tensor2 f es) =
     (if c = 1 \<and> f = 1 \<and> length es = e \<and> list_all (\<lambda>r. length r = 1) rs
      then Inr (Tensor2 1 (map (map (\<lambda>v. 2 * v)) rs)) else Inl RuntimeError)"
| "sample_layer x ei ea = Inl RuntimeError"

definition sample_encoder :: encoder where
  "sample_encoder =
     \<lparr> virtual_token = [9],
       input_proj = \<lparr> in_features = 1, out_features = 1, row_map = (\<lambda>r. r) \<rparr>,
       layers = [sample_layer, sample_layer],
       output_proj = \<lparr> in_features = 1, out_features = 1, row_map = (\<lambda>r. r) \<rparr> \<rparr>"

text \<open>
  The sources of the virtual-token edges, as \<open>repeat_interleave\<close> of the virtual-token
  indices by the instance sizes is shown below to compute them: for each instance id k
  from 0 to the largest one, the index of virtual token k once per node of instance k.
\<close>

definition virtual_sources :: "nat \<Rightarrow> int list \<Rightarrow> int list" where
  "virtual_sources n_x b =
     map (\<lambda>k. int n_x + k) (concat (map (\<lambda>k. replicate (count_list b k) k) [0..Max (set b)]))"

text \<open>
  The contract of the attention layers that \<open>forward\<close> relies on, for layers of hidden
  width \<open>H\<close> called on the augmented graph \<open>a\<close>: given node features of width \<open>H\<close>, one
  row per node of \<open>a\<close>, together with the edge index and the edge features of \<open>a\<close>, a layer
  returns node features of the same shape.
\<close>

definition layers_ok :: "nat \<Rightarrow> augmented \<Rightarrow> layer list \<Rightarrow> bool" where
  "layers_ok H a ls \<longleftrightarrow>
     (\<forall>l \<in> set ls. \<forall>rs. length rs = len_t (aug_x a) \<and> (\<forall>r \<in> set rs. length r = H) \<longrightarrow>
        (\<exists>rs'. l (Tensor2 H rs) (aug_edge_index a) (aug_edge_attr a) = Inr (Tensor2 H rs') \<and>
               length rs' = length rs \<and> (\<forall>r \<in> set rs'. length r = H)))"

text \<open>The entries of a tensor, row by row.\<close>

fun entries_of :: "'a tensor \<Rightarrow> 'a list" where
  "entries_of (Tensor1 xs) = xs"
| "entries_of (Tensor2 c rs) = concat rs"

section \<open>Properties of build_joint_graph\<close>

lemma bind_e_simps [simp]:
  "bind_e (Inr v) f = f v" "bind_e (Inl e) f = Inl e"
  by (simp_all add: bind_e_def)

lemma foldl_append_concat:
  "foldl (\<lambda>a j. a @ f j) acc xs = acc @ concat (map f xs)"
  by (induction xs arbitrary: acc) simp_all

lemma cross_inner_eq:
  "cross_inner N_q N_c i acc =
     acc @ concat (map (\<lambda>j. [[int i, int (N_q + j)], [int (N_q + j), int i]]) [0..<N_c])"
  unfolding cross_inner_def by (rule foldl_append_concat)

lemma cross_edges_list_eq:
  "cross_edges_list N_q N_c =
     concat (map (\<lambda>i. concat (map (\<lambda>j. [[int i, int (N_q + j)], [int (N_q + j), int i]])
                                 [0..<N_c])) [0..<N_q])"
proof -
  have "cross_edges_list N_q N_c =
     foldl (\<lambda>a i. a @ concat (map (\<lambda>j. [[int i, int (N_q + j)], [int (N_q + j), int i]])
                                 [0..<N_c])) [] [0..<N_q]"
    unfolding cross_edges_list_def by (simp add: cross_inner_eq)
  then show ?thesis by (simp add: foldl_append_concat)
qed

lemma cross_edges_list_pairs:
  "map (\<lambda>r. (r ! 0, r ! 1)) (cross_edges_list N_q N_c) = bridge_pairs N_q N_c"
  unfolding cross_edges_list_eq bridge_pairs_def
  by (simp add: map_concat comp_def)

lemma cross_edges_list_rows:
  "list_all (\<lambda>r. length r = 2) (cross_edges_list N_q N_c)"
  unfolding cross_edges_list_eq by (auto simp: list_all_iff)

lemma length_concat_const:
  "(\<And>x. x \<in> set xs \<Longrightarrow> length (f x) = k) \<Longrightarrow> length (concat (map f xs)) = length xs * k"
  by (induction xs) simp_all

lemma length_bridge_pairs: "length (bridge_pairs N_q N_c) = 2 * N_q * N_c"
proof -
  have inner: "length (concat (map (\<lambda>j. [(int i, int (N_q + j)), (int (N_q + j), int i)])
                                 [0..<N_c])) = length [0..<N_c] * 2" for i
    by (rule length_concat_const) simp
  have "length (bridge_pairs N_q N_c) = length [0..<N_q] * (N_c * 2)"
    unfolding bridge_pairs_def by (rule length_concat_const) (use inner in simp)
  then show ?thesis by simp
qed

lemma length_cross_edges_list: "length (cross_edges_list N_q N_c) = 2 * N_q * N_c"
  using length_bridge_pairs [of N_q N_c] cross_edges_list_pairs [of N_q N_c]
  by (metis length_map)

lemma torch_tensor_rows:
  "rows \<noteq> [] \<Longrightarrow> list_all (\<lambda>r. length r = k) rows \<Longrightarrow> torch_tensor rows = Inr (Tensor2 k rows)"
  by (cases rows) (auto simp: torch_tensor_def list_all_iff)

lemma t_t_two_columns:
  "t_t (Tensor2 2 rows) = Tensor2 (length rows) [map (\<lambda>r. r ! 0) rows, map (\<lambda>r. r ! 1) rows]"
proof -
  have "[0..<2] = [0, Suc 0]" by (simp add: upt_rec)
  then show ?thesis by simp
qed

lemma cross_columns:
  "map (\<lambda>r. r ! 0) (cross_edges_list N_q N_c) = map fst (bridge_pairs N_q N_c)"
  "map (\<lambda>r. r ! Suc 0) (cross_edges_list N_q N_c) = map snd (bridge_pairs N_q N_c)"
  unfolding cross_edges_list_pairs [symmetric] by (simp_all add: comp_def)

lemma cross_tensor:
  assumes "0 < N_q" "0 < N_c"
  shows "torch_tensor (cross_edges_list N_q N_c) = Inr (Tensor2 2 (cross_edges_list N_q N_c))"
proof -
  have "length (cross_edges_list N_q N_c) \<noteq> 0"
    using assms by (simp add: length_cross_edges_list)
  then have "cross_edges_list N_q N_c \<noteq> []" by auto
  then show ?thesis using cross_edges_list_rows by (rule torch_tensor_rows)
qed

lemma build_joint_graph_Inr:
  assumes xq: "data_x (pre A) = Tensor2 Fn xa" and xc: "data_x (pre B) = Tensor2 Fn xb"
    and ne: "xa \<noteq> []" "xb \<noteq> []"
    and eq: "data_edge_index (pre A) = Tensor2 Ea [sa, da]"
    and ec: "data_edge_index (pre B) = Tensor2 Eb [sb, db]"
    and aq: "data_edge_attr (pre A) = Tensor2 Fe ra"
    and ac: "data_edge_attr (pre B) = Tensor2 Fe rb"
  shows "build_joint_graph pre A B ld =
     Inr \<lparr> data_x = Tensor2 Fn (xa @ xb),
           data_edge_index = Tensor2 (Ea + Eb + 2 * length xa * length xb)
             [sa @ map (\<lambda>v. v + int (length xa)) sb @ map fst (bridge_pairs (length xa) (length xb)),
              da @ map (\<lambda>v. v + int (length xa)) db @ map snd (bridge_pairs (length xa) (length xb))],
           data_edge_attr = Tensor2 Fe
             (ra @ rb @ replicate (2 * length xa * length xb) (replicate Fe 0)),
           data_batch = Some (Tensor1 (replicate (length xa + length xb) 0)),
           data_y = map_option (\<lambda>d. Tensor1 [d]) ld \<rparr>"
proof -
  have n: "num_nodes (pre A) = length xa" "num_nodes (pre B) = length xb"
    by (simp_all add: num_nodes_def xq xc)
  have pos: "0 < length xa" "0 < length xb" using ne by simp_all
  have y: "(case ld of None \<Rightarrow> None | Some d \<Rightarrow> Some (Tensor1 [d])) = map_option (\<lambda>d. Tensor1 [d]) ld"
    by (cases ld) simp_all
  show ?thesis
    unfolding build_joint_graph_def Let_def n
    by (simp add: xq xc eq ec aq ac cross_tensor [OF pos] t_t_two_columns cross_columns
        length_cross_edges_list zeros2_def zeros1_def y del: of_nat_add t_t.simps)
qed

lemma set_bridge_pairs:
  "set (bridge_pairs N_q N_c) =
     {(int i, int (N_q + j)) | i j. i < N_q \<and> j < N_c} \<union>
     {(int (N_q + j), int i) | i j. i < N_q \<and> j < N_c}"
  unfolding bridge_pairs_def by auto

lemma distinct_concat_map:
  "distinct xs \<Longrightarrow> (\<And>x. x \<in> set xs \<Longrightarrow> distinct (f x)) \<Longrightarrow>
   (\<And>x y. x \<in> set xs \<Longrightarrow> y \<in> set xs \<Longrightarrow> x \<noteq> y \<Longrightarrow> set (f x) \<inter> set (f y) = {}) \<Longrightarrow>
   distinct (concat (map f xs))"
proof (induction xs)
  case Nil
  then show ?case by simp
next
  case (Cons a xs)
  have "set (f a) \<inter> set (f y) = {}" if "y \<in> set xs" for y
    using Cons.prems(1) Cons.prems(3) [of a y] that by auto
  with Cons show ?case by auto
qed

lemma distinct_bridge_inner:
  "distinct (concat (map (\<lambda>j. [(int i, int (N_q + j)), (int (N_q + j), int i)]) [0..<N_c]))"
  if "i < N_q"
  using that by (intro distinct_concat_map) auto

lemma distinct_bridge_pairs: "distinct (bridge_pairs N_q N_c)"
  unfolding bridge_pairs_def
  by (intro distinct_concat_map distinct_bridge_inner) auto

lemma graph_okE:
  assumes "graph_ok F_node F_edge g"
  obtains rows src dst attrs where
    "data_x g = Tensor2 F_node rows"
    "data_edge_index g = Tensor2 (length attrs) [src, dst]"
    "data_edge_attr g = Tensor2 F_edge attrs"
    "length src = length attrs" "length dst = length attrs"
  using assms unfolding graph_ok_def
  by (auto split: tensor.splits list.splits)

lemma zip_shift:
  "zip (map (\<lambda>v. v + int n) sb) (map (\<lambda>v. v + int n) db) = map (shift_edge n) (zip sb db)"
  by (simp add: zip_map_map shift_edge_def case_prod_unfold)

lemma build_joint_graph_ok:
  assumes A: "graph_ok F_node F_edge (pre A)" and B: "graph_ok F_node F_edge (pre B)"
    and pos: "0 < num_nodes (pre A)" "0 < num_nodes (pre B)"
  obtains J where
    "build_joint_graph pre A B ld = Inr J"
    "data_x J = Tensor2 F_node (rows_of (data_x (pre A)) @ rows_of (data_x (pre B)))"
    "size_t (data_edge_index J) 1 =
       Inr (num_edges (pre A) + num_edges (pre B) + 2 * num_nodes (pre A) * num_nodes (pre B))"
    "edges_of (data_edge_index J) =
       edges_of (data_edge_index (pre A)) @
       map (shift_edge (num_nodes (pre A))) (edges_of (data_edge_index (pre B))) @
       bridge_pairs (num_nodes (pre A)) (num_nodes (pre B))"
    "data_edge_attr J = Tensor2 F_edge
       (rows_of (data_edge_attr (pre A)) @ rows_of (data_edge_attr (pre B)) @
        replicate (2 * num_nodes (pre A) * num_nodes (pre B)) (replicate F_edge 0))"
    "data_batch J = Some (Tensor1 (replicate (num_nodes (pre A) + num_nodes (pre B)) 0))"
    "data_y J = map_option (\<lambda>d. Tensor1 [d]) ld"
proof -
  from A obtain xa sa da ra where a:
    "data_x (pre A) = Tensor2 F_node xa"
    "data_edge_index (pre A) = Tensor2 (length ra) [sa, da]"
    "data_edge_attr (pre A) = Tensor2 F_edge ra"
    "length sa = length ra" "length da = length ra"
    by (rule graph_okE)
  from B obtain xb sb db rb where b:
    "data_x (pre B) = Tensor2 F_node xb"
    "data_edge_index (pre B) = Tensor2 (length rb) [sb, db]"
    "data_edge_attr (pre B) = Tensor2 F_edge rb"
    "length sb = length rb" "length db = length rb"
    by (rule graph_okE)
  have ne: "xa \<noteq> []" "xb \<noteq> []"
    using pos by (auto simp: num_nodes_def a b)
  note J = build_joint_graph_Inr [where pre = pre and A = A and B = B and ld = ld,
      OF a(1) b(1) ne a(2) b(2) a(3) b(3)]
  have n: "num_nodes (pre A) = length xa" "num_nodes (pre B) = length xb"
    by (simp_all add: num_nodes_def a b)
  have e: "num_edges (pre A) = length ra" "num_edges (pre B) = length rb"
    by (simp_all add: num_edges_def a b)
  show thesis
  proof (rule that [OF J])
    show "edges_of (data_edge_index \<lparr> data_x = Tensor2 F_node (xa @ xb),
           data_edge_index = Tensor2 (length ra + length rb + 2 * length xa * length xb)
             [sa @ map (\<lambda>v. v + int (length xa)) sb @ map fst (bridge_pairs (length xa) (length xb)),
              da @ map (\<lambda>v. v + int (length xa)) db @ map snd (bridge_pairs (length xa) (length xb))],
           data_edge_attr = Tensor2 F_edge
             (ra @ rb @ replicate (2 * length xa * length xb) (replicate F_edge 0)),
           data_batch = Some (Tensor1 (replicate (length xa + length xb) 0)),
           data_y = map_option (\<lambda>d. Tensor1 [d]) ld \<rparr>) =
       edges_of (data_edge_index (pre A)) @
       map (shift_edge (num_nodes (pre A))) (edges_of (data_edge_index (pre B))) @
       bridge_pairs (num_nodes (pre A)) (num_nodes (pre B))"
      by (simp add: a b n zip_shift zip_map_fst_snd del: of_nat_add)
  qed (simp_all add: a b n e)
qed

lemma cross_edges_list_empty:
  "N_q = 0 \<or> N_c = 0 \<Longrightarrow> cross_edges_list N_q N_c = []"
  by (auto simp: cross_edges_list_eq)

lemma build_joint_graph_empty_Inl:
  assumes "num_nodes (pre A) = 0 \<or> num_nodes (pre B) = 0"
  shows "\<exists>e. build_joint_graph pre A B ld = Inl e"
proof -
  have "torch_tensor (cross_edges_list (num_nodes (pre A)) (num_nodes (pre B))) = Inr (Tensor1 [])"
    using cross_edges_list_empty [OF assms] by (simp add: torch_tensor_def)
  then show ?thesis
    unfolding build_joint_graph_def Let_def
    by (simp add: bind_e_def split: sum.splits)
qed

text \<open>
  For graphs A and B that satisfy the Graph invariant with the same node-feature width and
  the same edge-feature width and have at least one node each, \<open>build_joint_graph\<close>
  returns a graph with N_a + N_b nodes, A's node rows followed by B's, with
  |A.edges| + |B.edges| + 2 N_a N_b edges, of which the first |A.edges| are A's and the next
  |B.edges| are B's with every node id shifted by N_a, and whose batch vector is the zero
  vector of length N_a + N_b.
\<close>

theorem build_joint_graph_counts:
  assumes "graph_ok F_node F_edge (pre A)" and "graph_ok F_node F_edge (pre B)"
    and "0 < num_nodes (pre A)" and "0 < num_nodes (pre B)"
  shows "\<exists>J. build_joint_graph pre A B ld = Inr J \<and>
           num_nodes J = num_nodes (pre A) + num_nodes (pre B) \<and>
           rows_of (data_x J) = rows_of (data_x (pre A)) @ rows_of (data_x (pre B)) \<and>
           size_t (data_edge_index J) 1 =
             Inr (num_edges (pre A) + num_edges (pre B) + 2 * num_nodes (pre A) * num_nodes (pre B)) \<and>
           num_edges J =
             num_edges (pre A) + num_edges (pre B) + 2 * num_nodes (pre A) * num_nodes (pre B) \<and>
           take (num_edges (pre A)) (edges_of (data_edge_index J)) =
             edges_of (data_edge_index (pre A)) \<and>
           take (num_edges (pre B)) (drop (num_edges (pre A)) (edges_of (data_edge_index J))) =
             map (shift_edge (num_nodes (pre A))) (edges_of (data_edge_index (pre B))) \<and>
           data_batch J = Some (Tensor1 (replicate (num_nodes (pre A) + num_nodes (pre B)) 0))"
proof -
  obtain J where J:
    "build_joint_graph pre A B ld = Inr J"
    "data_x J = Tensor2 F_node (rows_of (data_x (pre A)) @ rows_of (data_x (pre B)))"
    "size_t (data_edge_index J) 1 =
       Inr (num_edges (pre A) + num_edges (pre B) + 2 * num_nodes (pre A) * num_nodes (pre B))"
    "edges_of (data_edge_index J) =
       edges_of (data_edge_index (pre A)) @
       map (shift_edge (num_nodes (pre A))) (edges_of (data_edge_index (pre B))) @
       bridge_pairs (num_nodes (pre A)) (num_nodes (pre B))"
    "data_batch J = Some (Tensor1 (replicate (num_nodes (pre A) + num_nodes (pre B)) 0))"
    using assms by (rule build_joint_graph_ok)
  have rows: "length (rows_of (data_x (pre A))) = num_nodes (pre A)"
    "length (rows_of (data_x (pre B))) = num_nodes (pre B)"
    using assms(1,2) by (auto elim!: graph_okE simp: num_nodes_def)
  have "num_nodes J = num_nodes (pre A) + num_nodes (pre B)"
    by (simp add: num_nodes_def J(2) rows)
  moreover have "num_edges J =
      num_edges (pre A) + num_edges (pre B) + 2 * num_nodes (pre A) * num_nodes (pre B)"
    by (simp add: num_edges_def J(4) length_bridge_pairs)
  ultimately show ?thesis
    using J by (simp add: num_edges_def)
qed

text \<open>The theorem at the sample graphs: 2 + 3 nodes, 1 + 2 + 12 edges.\<close>

theorem build_joint_graph_counts_witness:
  "graph_ok 1 1 (preprocess_identity sample_A) \<and> graph_ok 1 1 (preprocess_identity sample_B) \<and>
   0 < num_nodes (preprocess_identity sample_A) \<and> 0 < num_nodes (preprocess_identity sample_B) \<and>
   (\<exists>J. build_joint_graph preprocess_identity sample_A sample_B None = Inr J \<and> num_nodes J = 5 \<and>
        num_edges J = 15 \<and>
        take (num_edges sample_B) (drop (num_edges sample_A) (edges_of (data_edge_index J))) =
          [(2, 3), (4, 2)])"
  using build_joint_graph_counts [of 1 1 preprocess_identity sample_A sample_B None]
  by (auto simp: graph_ok_def sample_A_def sample_B_def num_nodes_def num_edges_def shift_edge_def
      preprocess_identity_def)

lemma build_joint_graph_empty_IndexError:
  assumes A: "graph_ok F_node F_edge (pre A)" and B: "graph_ok F_node F_edge (pre B)"
    and zero: "num_nodes (pre A) = 0 \<or> num_nodes (pre B) = 0"
  shows "build_joint_graph pre A B ld = Inl IndexError"
proof -
  from A obtain xa sa da ra where a:
    "data_x (pre A) = Tensor2 F_node xa"
    "data_edge_index (pre A) = Tensor2 (length ra) [sa, da]"
    "data_edge_attr (pre A) = Tensor2 F_edge ra"
    by (rule graph_okE)
  from B obtain xb sb db rb where b:
    "data_x (pre B) = Tensor2 F_node xb"
    "data_edge_index (pre B) = Tensor2 (length rb) [sb, db]"
    "data_edge_attr (pre B) = Tensor2 F_edge rb"
    by (rule graph_okE)
  have "torch_tensor (cross_edges_list (num_nodes (pre A)) (num_nodes (pre B))) = Inr (Tensor1 [])"
    using cross_edges_list_empty [OF zero] by (simp add: torch_tensor_def)
  then show ?thesis
    unfolding build_joint_graph_def Let_def by (simp add: a b)
qed

text \<open>
  Claim C1: the claim covers graphs of every size, and for graphs of at least one node each
  the code returns the joint graph as claimed (above). With a graph of zero nodes on
  either side, within the Graph invariant and with matching feature widths, the call
  raises IndexError instead of returning a graph with N_a + N_b nodes.
\<close>

theorem build_joint_graph_zero_nodes:
  assumes "graph_ok F_node F_edge (pre A)" and "graph_ok F_node F_edge (pre B)"
    and "num_nodes (pre A) = 0 \<or> num_nodes (pre B) = 0"
  shows "build_joint_graph pre A B ld = Inl IndexError"
  using assms by (rule build_joint_graph_empty_IndexError)

text \<open>The theorem at a graph of zero nodes and a graph of two nodes and one edge.\<close>

theorem build_joint_graph_zero_nodes_witness:
  "graph_ok 1 1 (preprocess_identity sample_empty) \<and>
   graph_ok 1 1 (preprocess_identity sample_A) \<and>
   num_nodes (preprocess_identity sample_empty) = 0 \<and>
   num_nodes (preprocess_identity sample_A) = 2 \<and>
   build_joint_graph preprocess_identity sample_empty sample_A None = Inl IndexError"
proof -
  have h: "graph_ok 1 1 (preprocess_identity sample_empty)"
    "graph_ok 1 1 (preprocess_identity sample_A)"
    "num_nodes (preprocess_identity sample_empty) = 0 \<or>
     num_nodes (preprocess_identity sample_A) = 0"
    by (simp_all add: graph_ok_def sample_empty_def sample_A_def num_nodes_def
        preprocess_identity_def)
  have n: "num_nodes (preprocess_identity sample_empty) = 0"
    "num_nodes (preprocess_identity sample_A) = 2"
    by (simp_all add: sample_empty_def sample_A_def num_nodes_def preprocess_identity_def)
  from build_joint_graph_zero_nodes [where pre = preprocess_identity and A = sample_empty
      and B = sample_A and ld = None, OF h] h(1,2) n
  show ?thesis by simp
qed

text \<open>
  Claim C6: with a graph of zero nodes on either side the list of bridge edges is empty,
  \<open>torch.tensor([])\<close> has rank one, and \<open>cross_edges.size(1)\<close> raises IndexError: the
  call does not succeed.
\<close>

theorem build_joint_graph_empty_raises:
  "num_nodes sample_empty = 0 \<and>
   build_joint_graph preprocess_identity sample_empty sample_B None = Inl IndexError \<and>
   build_joint_graph preprocess_identity sample_B sample_empty None = Inl IndexError"
  by (simp add: build_joint_graph_def sample_empty_def sample_B_def num_nodes_def
      cross_edges_list_def cross_inner_def torch_tensor_def zeros2_def upt_rec
      preprocess_identity_def)

lemma count_list_distinct:
  "distinct xs \<Longrightarrow> x \<in> set xs \<Longrightarrow> count_list xs x = 1"
  by (induction xs) auto

text \<open>
  Claim C3: for graphs A and B with at least one node each (and the Graph invariant), the
  edges that \<open>build_joint_graph\<close> appends after A's and B's own are exactly the pairs
  (i, N_a + j) and (N_a + j, i) for i < N_a and j < N_b, each of them exactly once, and
  each carries an all-zero edge-feature row of the source graphs' edge-feature width.
\<close>

theorem bridge_edges_complete_bipartite:
  assumes "graph_ok F_node F_edge (pre A)" and "graph_ok F_node F_edge (pre B)"
    and "0 < num_nodes (pre A)" and "0 < num_nodes (pre B)"
  shows "\<exists>J bridge.
           build_joint_graph pre A B ld = Inr J \<and>
           bridge = drop (num_edges (pre A) + num_edges (pre B)) (edges_of (data_edge_index J)) \<and>
           set bridge =
             {(int i, int (num_nodes (pre A) + j)) | i j.
                i < num_nodes (pre A) \<and> j < num_nodes (pre B)} \<union>
             {(int (num_nodes (pre A) + j), int i) | i j.
                i < num_nodes (pre A) \<and> j < num_nodes (pre B)} \<and>
           (\<forall>i < num_nodes (pre A). \<forall>j < num_nodes (pre B).
              count_list bridge (int i, int (num_nodes (pre A) + j)) = 1 \<and>
              count_list bridge (int (num_nodes (pre A) + j), int i) = 1) \<and>
           length bridge = 2 * num_nodes (pre A) * num_nodes (pre B) \<and>
           size_t (data_edge_attr J) 1 = Inr F_edge \<and>
           drop (num_edges (pre A) + num_edges (pre B)) (rows_of (data_edge_attr J)) =
             replicate (length bridge) (replicate F_edge 0)"
proof -
  let ?Na = "num_nodes (pre A)" and ?Nb = "num_nodes (pre B)"
  obtain J where J:
    "build_joint_graph pre A B ld = Inr J"
    "edges_of (data_edge_index J) =
       edges_of (data_edge_index (pre A)) @
       map (shift_edge ?Na) (edges_of (data_edge_index (pre B))) @ bridge_pairs ?Na ?Nb"
    "data_edge_attr J = Tensor2 F_edge
       (rows_of (data_edge_attr (pre A)) @ rows_of (data_edge_attr (pre B)) @
        replicate (2 * ?Na * ?Nb) (replicate F_edge 0))"
    using assms by (rule build_joint_graph_ok)
  have attrs: "length (rows_of (data_edge_attr (pre A))) = num_edges (pre A)"
    "length (rows_of (data_edge_attr (pre B))) = num_edges (pre B)"
    using assms(1,2) by (auto elim!: graph_okE simp: num_edges_def)
  have br: "drop (num_edges (pre A) + num_edges (pre B)) (edges_of (data_edge_index J)) =
      bridge_pairs ?Na ?Nb"
    by (simp add: J(2) num_edges_def)
  have cnt: "count_list (bridge_pairs ?Na ?Nb) (int i, int (?Na + j)) = 1 \<and>
             count_list (bridge_pairs ?Na ?Nb) (int (?Na + j), int i) = 1"
    if "i < ?Na" "j < ?Nb" for i j
  proof -
    have "(int i, int (?Na + j)) \<in> set (bridge_pairs ?Na ?Nb)"
      "(int (?Na + j), int i) \<in> set (bridge_pairs ?Na ?Nb)"
      unfolding set_bridge_pairs using that by blast+
    then show ?thesis
      by (simp add: count_list_distinct distinct_bridge_pairs del: of_nat_add)
  qed
  have rows: "drop (num_edges (pre A) + num_edges (pre B)) (rows_of (data_edge_attr J)) =
      replicate (length (bridge_pairs ?Na ?Nb)) (replicate F_edge 0)"
    by (simp add: J(3) attrs length_bridge_pairs)
  show ?thesis
    unfolding br
    using J(1) cnt rows set_bridge_pairs [of ?Na ?Nb] length_bridge_pairs [of ?Na ?Nb]
    by (intro exI [of _ J] exI [of _ "bridge_pairs ?Na ?Nb"] conjI allI impI)
       (simp_all add: br J(3) del: of_nat_add)
qed

text \<open>The theorem at the sample graphs: twelve bridge edges after the three original ones.\<close>

theorem bridge_edges_complete_bipartite_witness:
  "graph_ok 1 1 (preprocess_identity sample_A) \<and> graph_ok 1 1 (preprocess_identity sample_B) \<and>
   0 < num_nodes (preprocess_identity sample_A) \<and> 0 < num_nodes (preprocess_identity sample_B) \<and>
   (\<exists>J. build_joint_graph preprocess_identity sample_A sample_B None = Inr J \<and>
        count_list (drop 3 (edges_of (data_edge_index J))) (1, 4) = 1 \<and>
        count_list (drop 3 (edges_of (data_edge_index J))) (4, 1) = 1 \<and>
        length (drop 3 (edges_of (data_edge_index J))) = 12 \<and>
        drop 3 (rows_of (data_edge_attr J)) = replicate 12 [0])"
proof -
  have ok: "graph_ok 1 1 (preprocess_identity sample_A)"
    "graph_ok 1 1 (preprocess_identity sample_B)"
    "0 < num_nodes (preprocess_identity sample_A)" "0 < num_nodes (preprocess_identity sample_B)"
    by (simp_all add: graph_ok_def sample_A_def sample_B_def num_nodes_def preprocess_identity_def)
  have n: "num_nodes (preprocess_identity sample_A) = 2"
    "num_nodes (preprocess_identity sample_B) = 3"
    "num_edges (preprocess_identity sample_A) + num_edges (preprocess_identity sample_B) = 3"
    by (simp_all add: sample_A_def sample_B_def num_nodes_def num_edges_def
        preprocess_identity_def)
  from bridge_edges_complete_bipartite [of 1 1 preprocess_identity sample_A sample_B None, OF ok]
  obtain J where J: "build_joint_graph preprocess_identity sample_A sample_B None = Inr J"
    "\<forall>i<2. \<forall>j<3. count_list (drop 3 (edges_of (data_edge_index J))) (int i, int (2 + j)) = 1 \<and>
        count_list (drop 3 (edges_of (data_edge_index J))) (int (2 + j), int i) = 1"
    "length (drop 3 (edges_of (data_edge_index J))) = 12"
    "drop 3 (rows_of (data_edge_attr J)) =
       replicate (length (drop 3 (edges_of (data_edge_index J)))) [0]"
    unfolding n by auto
  have "count_list (drop 3 (edges_of (data_edge_index J))) (1, 4) = 1 \<and>
        count_list (drop 3 (edges_of (data_edge_index J))) (4, 1) = 1"
    using J(2) [rule_format, of 1 2] by simp
  with J(1,3,4) ok show ?thesis by simp
qed

section \<open>Properties of build_label_diff_dataset\<close>

lemma random_sample2_distinct:
  assumes "2 \<le> n"
  obtains i j where "random_sample2 n r = Inr (i, j)" "i < n" "j < n" "i \<noteq> j"
proof -
  let ?i = "fst r mod n" and ?j = "snd r mod (n - 1)"
  have i: "?i < n" and j: "?j < n - 1" using assms by simp_all
  show thesis
  proof (rule that)
    show "random_sample2 n r = Inr (?i, if ?j = ?i then n - 1 else ?j)"
      using assms by (simp add: random_sample2_def Let_def)
    show "?i < n" by (rule i)
    have "?j < n" using j by linarith
    then show "(if ?j = ?i then n - 1 else ?j) < n" using assms by simp
    show "?i \<noteq> (if ?j = ?i then n - 1 else ?j)" using j by auto
  qed
qed

lemma pairs_loop_step:
  assumes n: "2 \<le> length graphs" and len: "length norm_labels = length graphs"
    and ok: "\<forall>g \<in> set graphs. graph_ok F_node F_edge (pre g) \<and> 0 < num_nodes (pre g)"
  obtains J where "pair_of pre graphs norm_labels (rnd t) J"
    "pairs_loop pre graphs norm_labels rnd (t # ts) pairs =
       pairs_loop pre graphs norm_labels rnd ts (pairs @ [J])"
proof -
  obtain i j where s: "random_sample2 (length graphs) (rnd t) = Inr (i, j)"
    "i < length graphs" "j < length graphs" "i \<noteq> j"
    using n by (rule random_sample2_distinct)
  have gi: "graph_ok F_node F_edge (pre (graphs ! i))" "0 < num_nodes (pre (graphs ! i))"
    and gj: "graph_ok F_node F_edge (pre (graphs ! j))" "0 < num_nodes (pre (graphs ! j))"
    using ok s(2,3) by simp_all
  let ?d = "np_sub (norm_labels ! i) (norm_labels ! j)"
  obtain J where J: "build_joint_graph pre (graphs ! i) (graphs ! j) (Some ?d) = Inr J"
    "data_y J = map_option (\<lambda>d. Tensor1 [d]) (Some ?d)"
    using gi(1) gj(1) gi(2) gj(2) by (rule build_joint_graph_ok)
  show thesis
  proof (rule that)
    show "pair_of pre graphs norm_labels (rnd t) J"
      unfolding pair_of_def using s J by auto
    show "pairs_loop pre graphs norm_labels rnd (t # ts) pairs =
       pairs_loop pre graphs norm_labels rnd ts (pairs @ [J])"
      using s J(1) by (simp add: index_e_def len)
  qed
qed

lemma pairs_loop_ok:
  assumes n: "2 \<le> length graphs" and len: "length norm_labels = length graphs"
    and ok: "\<forall>g \<in> set graphs. graph_ok F_node F_edge (pre g) \<and> 0 < num_nodes (pre g)"
  shows "\<exists>new. pairs_loop pre graphs norm_labels rnd ts pairs = Inr (pairs @ new) \<and>
           list_all2 (\<lambda>t J. pair_of pre graphs norm_labels (rnd t) J) ts new"
proof (induction ts arbitrary: pairs)
  case Nil
  then show ?case by simp
next
  case (Cons t ts)
  obtain J where J: "pair_of pre graphs norm_labels (rnd t) J"
    "pairs_loop pre graphs norm_labels rnd (t # ts) pairs =
       pairs_loop pre graphs norm_labels rnd ts (pairs @ [J])"
    using pairs_loop_step [where pre = pre and rnd = rnd and t = t and ts = ts and pairs = pairs,
        OF n len ok]
    by blast
  from Cons.IH [of "pairs @ [J]"] obtain new where new:
    "pairs_loop pre graphs norm_labels rnd ts (pairs @ [J]) = Inr ((pairs @ [J]) @ new)"
    "list_all2 (\<lambda>t J. pair_of pre graphs norm_labels (rnd t) J) ts new"
    by blast
  show ?case
    using J new by (intro exI [of _ "J # new"]) simp
qed

lemma length_normalize_labels:
  "normalize_labels labels = Inr norm_labels \<Longrightarrow> length norm_labels = length labels"
  by (cases labels) (auto simp: normalize_labels_def)

lemma normalize_labels_Inr:
  "labels \<noteq> [] \<Longrightarrow> \<exists>mn mx. np_min labels = Inr mn \<and> np_max labels = Inr mx \<and>
     normalize_labels labels = Inr (map (norm_label mn mx) labels)"
  by (cases labels) (auto simp: normalize_labels_def)

lemma build_label_diff_dataset_ok:
  assumes n: "2 \<le> length graphs" and len: "length labels = length graphs"
    and ok: "\<forall>g \<in> set graphs. graph_ok F_node F_edge (pre g) \<and> 0 < num_nodes (pre g)"
  obtains norm_labels pairs where
    "normalize_labels labels = Inr norm_labels"
    "build_label_diff_dataset pre graphs labels k rnd = Inr pairs"
    "length pairs = k"
    "\<And>t. t < k \<Longrightarrow> pair_of pre graphs norm_labels (rnd t) (pairs ! t)"
proof -
  have "labels \<noteq> []" using n len by auto
  then obtain norm_labels where nl: "normalize_labels labels = Inr norm_labels"
    using normalize_labels_Inr by blast
  then have len': "length norm_labels = length graphs"
    using length_normalize_labels len by simp
  from pairs_loop_ok [where pre = pre and rnd = rnd and ts = "[0..<k]" and pairs = "[]",
      OF n len' ok]
  obtain pairs where p:
    "pairs_loop pre graphs norm_labels rnd [0..<k] [] = Inr pairs"
    "list_all2 (\<lambda>t J. pair_of pre graphs norm_labels (rnd t) J) [0..<k] pairs"
    by auto
  show thesis
  proof (rule that [OF nl])
    show "build_label_diff_dataset pre graphs labels k rnd = Inr pairs"
      by (simp add: build_label_diff_dataset_def nl p(1))
    show "length pairs = k" using p(2) by (auto dest: list_all2_lengthD)
    show "pair_of pre graphs norm_labels (rnd t) (pairs ! t)" if "t < k" for t
      using list_all2_nthD [OF p(2), of t] that by simp
  qed
qed

lemma np_min_Min: "labels \<noteq> [] \<Longrightarrow> np_min labels = Inr (Min (set labels))"
  by (cases labels) (simp_all add: Min.set_eq_fold [symmetric])

lemma np_max_Max: "labels \<noteq> [] \<Longrightarrow> np_max labels = Inr (Max (set labels))"
  by (cases labels) (simp_all add: Max.set_eq_fold [symmetric])

lemma np_min_max_bounds:
  assumes "np_min labels = Inr mn" "np_max labels = Inr mx" "l \<in> set labels"
  shows "mn \<le> l" "l \<le> mx"
proof -
  have ne: "labels \<noteq> []" using assms(3) by auto
  have "mn = Min (set labels)" "mx = Max (set labels)"
    using assms(1,2) np_min_Min [OF ne] np_max_Max [OF ne] by simp_all
  then show "mn \<le> l" "l \<le> mx" using assms(3) by simp_all
qed



lemma norm_label_degenerate: "norm_label mn mn mn = NaN"
  by (simp add: norm_label_def np_div_def)



text \<open>
  For a list of at least two graphs that satisfy the Graph invariant with common feature
  widths and have at least one node each, and a list of labels of the same length,
  \<open>build_label_diff_dataset\<close> returns exactly k joint graphs; element t is the joint graph
  of the two positions i and j sampled in iteration t, which are distinct, and its target
  is norm_labels[i] - norm_labels[j].
\<close>

theorem build_label_diff_dataset_pairs:
  assumes "2 \<le> length graphs" and "length labels = length graphs"
    and "\<forall>g \<in> set graphs. graph_ok F_node F_edge (pre g) \<and> 0 < num_nodes (pre g)"
  shows "\<exists>norm_labels pairs.
           normalize_labels labels = Inr norm_labels \<and>
           build_label_diff_dataset pre graphs labels k rnd = Inr pairs \<and>
           length pairs = k \<and>
           (\<forall>t < k. \<exists>i j.
              random_sample2 (length graphs) (rnd t) = Inr (i, j) \<and>
              i < length graphs \<and> j < length graphs \<and> i \<noteq> j \<and>
              build_joint_graph pre (graphs ! i) (graphs ! j)
                (Some (np_sub (norm_labels ! i) (norm_labels ! j))) = Inr (pairs ! t) \<and>
              data_y (pairs ! t) = Some (Tensor1 [np_sub (norm_labels ! i) (norm_labels ! j)]))"
proof -
  obtain norm_labels pairs where r:
    "normalize_labels labels = Inr norm_labels"
    "build_label_diff_dataset pre graphs labels k rnd = Inr pairs"
    "length pairs = k"
    "\<And>t. t < k \<Longrightarrow> pair_of pre graphs norm_labels (rnd t) (pairs ! t)"
    using build_label_diff_dataset_ok [where pre = pre and k = k and rnd = rnd, OF assms]
    by blast
  show ?thesis
    using r(1,2,3) r(4) [unfolded pair_of_def]
    by (intro exI [of _ norm_labels] exI [of _ pairs] conjI allI impI) assumption+
qed

text \<open>The theorem at two sample graphs with labels [1, 5] and two pairs.\<close>

theorem build_label_diff_dataset_pairs_witness:
  "2 \<le> length [sample_A, sample_B] \<and> length [1, 5 :: real] = length [sample_A, sample_B] \<and>
   graph_ok 1 1 (preprocess_identity sample_A) \<and> 0 < num_nodes (preprocess_identity sample_A) \<and>
   graph_ok 1 1 (preprocess_identity sample_B) \<and> 0 < num_nodes (preprocess_identity sample_B) \<and>
   (\<exists>pairs. build_label_diff_dataset preprocess_identity [sample_A, sample_B] [1, 5] 2 sample_draws = Inr pairs \<and>
      length pairs = 2 \<and>
      data_y (pairs ! 0) = Some (Tensor1 [Fin (- 2)]) \<and>
      data_y (pairs ! 1) = Some (Tensor1 [Fin 2]))"
proof -
  have h: "2 \<le> length [sample_A, sample_B]"
    "length [1, 5 :: real] = length [sample_A, sample_B]"
    "\<forall>g \<in> set [sample_A, sample_B]. graph_ok 1 1 (preprocess_identity g) \<and> 0 < num_nodes (preprocess_identity g)"
    by (simp_all add: graph_ok_def sample_A_def sample_B_def num_nodes_def preprocess_identity_def)
  have nl: "normalize_labels [1, 5] = Inr [Fin (- 1), Fin 1]"
    by (simp add: normalize_labels_def norm_label_def np_div_def)
  have s: "random_sample2 (length [sample_A, sample_B]) (sample_draws 0) = Inr (0, 1)"
    "random_sample2 (length [sample_A, sample_B]) (sample_draws 1) = Inr (1, 0)"
    by (simp_all add: random_sample2_def sample_draws_def)
  from build_label_diff_dataset_pairs [OF h, of 2 sample_draws]
  obtain norm_labels pairs where p:
    "normalize_labels [1, 5] = Inr norm_labels"
    "build_label_diff_dataset preprocess_identity [sample_A, sample_B] [1, 5] 2 sample_draws =
       Inr pairs"
    "length pairs = 2"
    "\<forall>t < 2. \<exists>i j.
        random_sample2 (length [sample_A, sample_B]) (sample_draws t) = Inr (i, j) \<and>
        i < length [sample_A, sample_B] \<and> j < length [sample_A, sample_B] \<and> i \<noteq> j \<and>
        build_joint_graph preprocess_identity ([sample_A, sample_B] ! i) ([sample_A, sample_B] ! j)
          (Some (np_sub (norm_labels ! i) (norm_labels ! j))) = Inr (pairs ! t) \<and>
        data_y (pairs ! t) = Some (Tensor1 [np_sub (norm_labels ! i) (norm_labels ! j)])"
    by blast
  have norm: "norm_labels = [Fin (- 1), Fin 1]" using p(1) nl by simp
  have "data_y (pairs ! 0) = Some (Tensor1 [Fin (- 2)])"
    using p(4) [rule_format, of 0] s(1) by (auto simp: norm)
  moreover have "data_y (pairs ! 1) = Some (Tensor1 [Fin 2])"
    using p(4) [rule_format, of 1] s(2) by (auto simp: norm)
  ultimately show ?thesis using h p(2,3) by auto
qed

text \<open>
  Claim C8: the claim covers every list of at least two graphs, and for graphs of at least
  one node each the code returns the k joint graphs as claimed (above). When the first
  pair sampled contains a graph of zero nodes, within the Graph invariant and with common
  feature widths, the call raises IndexError (in \<open>build_joint_graph\<close>) instead of
  returning k joint graphs.
\<close>

theorem build_label_diff_dataset_zero_nodes:
  assumes "2 \<le> length graphs" and "length labels = length graphs"
    and "\<forall>g \<in> set graphs. graph_ok F_node F_edge (pre g)"
    and "0 < k"
    and "random_sample2 (length graphs) (rnd 0) = Inr (i, j)"
    and "num_nodes (pre (graphs ! i)) = 0 \<or> num_nodes (pre (graphs ! j)) = 0"
  shows "build_label_diff_dataset pre graphs labels k rnd = Inl IndexError"
proof -
  have "labels \<noteq> []" using assms(1,2) by auto
  then obtain norm_labels where nl: "normalize_labels labels = Inr norm_labels"
    using normalize_labels_Inr by blast
  then have len: "length norm_labels = length graphs"
    using length_normalize_labels assms(2) by simp
  obtain i' j' where s: "random_sample2 (length graphs) (rnd 0) = Inr (i', j')"
    "i' < length graphs" "j' < length graphs"
    using assms(1) by (rule random_sample2_distinct)
  then have ij: "i < length graphs" "j < length graphs" using assms(5) by simp_all
  have "graph_ok F_node F_edge (pre (graphs ! i))" "graph_ok F_node F_edge (pre (graphs ! j))"
    using assms(3) ij by simp_all
  then have J: "build_joint_graph pre (graphs ! i) (graphs ! j) ld = Inl IndexError" for ld
    using assms(6) by (rule build_joint_graph_empty_IndexError)
  have "[0..<k] = 0 # [1..<k]" using assms(4) by (simp add: upt_conv_Cons)
  then show ?thesis
    by (simp add: build_label_diff_dataset_def nl assms(5) index_e_def len ij J)
qed

text \<open>
  The theorem at a graph of zero nodes and a graph of three nodes, labels [1, 3], one pair.
\<close>

theorem build_label_diff_dataset_zero_nodes_witness:
  "2 \<le> length [sample_empty, sample_B] \<and>
   length [1, 3 :: real] = length [sample_empty, sample_B] \<and>
   graph_ok 1 1 (preprocess_identity sample_empty) \<and>
   graph_ok 1 1 (preprocess_identity sample_B) \<and>
   random_sample2 (length [sample_empty, sample_B]) (sample_draws 0) = Inr (0, 1) \<and>
   num_nodes (preprocess_identity ([sample_empty, sample_B] ! 0)) = 0 \<and>
   build_label_diff_dataset preprocess_identity [sample_empty, sample_B] [1, 3] 1 sample_draws =
     Inl IndexError"
proof -
  have h: "2 \<le> length [sample_empty, sample_B]"
    "length [1, 3 :: real] = length [sample_empty, sample_B]"
    "\<forall>g \<in> set [sample_empty, sample_B]. graph_ok 1 1 (preprocess_identity g)"
    "0 < (1::nat)"
    "random_sample2 (length [sample_empty, sample_B]) (sample_draws 0) = Inr (0, 1)"
    "num_nodes (preprocess_identity ([sample_empty, sample_B] ! 0)) = 0 \<or>
     num_nodes (preprocess_identity ([sample_empty, sample_B] ! 1)) = 0"
    by (simp_all add: graph_ok_def sample_empty_def sample_B_def num_nodes_def
        preprocess_identity_def random_sample2_def sample_draws_def)
  have g: "graph_ok 1 1 (preprocess_identity sample_empty)"
    "graph_ok 1 1 (preprocess_identity sample_B)"
    "num_nodes (preprocess_identity ([sample_empty, sample_B] ! 0)) = 0"
    by (simp_all add: graph_ok_def sample_empty_def sample_B_def num_nodes_def
        preprocess_identity_def)
  from build_label_diff_dataset_zero_nodes [where pre = preprocess_identity
      and graphs = "[sample_empty, sample_B]" and labels = "[1, 3]" and k = 1
      and rnd = sample_draws and i = 0 and j = 1 and F_node = 1 and F_edge = 1, OF h]
    h(1,2,5) g
  show ?thesis by simp
qed

lemma normalize_labels_degenerate:
  assumes "labels \<noteq> []" and "np_max labels = np_min labels"
  shows "normalize_labels labels = Inr (replicate (length labels) NaN)"
proof -
  obtain mn mx where m: "np_min labels = Inr mn" "np_max labels = Inr mx"
    "normalize_labels labels = Inr (map (norm_label mn mx) labels)"
    using normalize_labels_Inr [OF assms(1)] by blast
  have eq: "mx = mn" using m(1,2) assms(2) by simp
  have "norm_label mn mx l = NaN" if "l \<in> set labels" for l
  proof -
    have "l = mn" using np_min_max_bounds [OF m(1,2) that] eq by simp
    then show ?thesis by (simp add: eq norm_label_degenerate)
  qed
  then have "map (norm_label mn mx) labels = replicate (length labels) NaN"
    by (simp add: map_replicate_const [symmetric] cong: map_cong)
  with m(3) show ?thesis by simp
qed

text \<open>
  Claim C7 (as amended): when all labels are equal (max_label = min_label) the
  normalisation does not raise; every normalised label is NaN (0 / 0 in numpy), and for
  graphs as in C8 the k pairs are still built, each with target NaN.
\<close>

theorem degenerate_labels_give_nan:
  assumes "2 \<le> length graphs" and "length labels = length graphs"
    and "\<forall>g \<in> set graphs. graph_ok F_node F_edge (pre g) \<and> 0 < num_nodes (pre g)"
    and "np_max labels = np_min labels"
  shows "\<exists>pairs.
           normalize_labels labels = Inr (replicate (length labels) NaN) \<and>
           build_label_diff_dataset pre graphs labels k rnd = Inr pairs \<and>
           length pairs = k \<and>
           (\<forall>t < k. data_y (pairs ! t) = Some (Tensor1 [NaN]))"
proof -
  have ne: "labels \<noteq> []" using assms(1,2) by auto
  note nl = normalize_labels_degenerate [OF ne assms(4)]
  obtain norm_labels pairs where r:
    "normalize_labels labels = Inr norm_labels"
    "build_label_diff_dataset pre graphs labels k rnd = Inr pairs"
    "length pairs = k"
    "\<And>t. t < k \<Longrightarrow> pair_of pre graphs norm_labels (rnd t) (pairs ! t)"
    using build_label_diff_dataset_ok [where pre = pre and k = k and rnd = rnd, OF assms(1,2,3)]
    by blast
  have norm: "norm_labels = replicate (length graphs) NaN"
    using r(1) nl assms(2) by simp
  have "data_y (pairs ! t) = Some (Tensor1 [NaN])" if "t < k" for t
    using r(4) [OF that] unfolding pair_of_def norm by auto
  with nl r(2,3) show ?thesis by blast
qed

text \<open>The theorem at two sample graphs with labels [7, 7] and three pairs.\<close>

theorem degenerate_labels_give_nan_witness:
  "2 \<le> length [sample_A, sample_B] \<and> length [7, 7 :: real] = length [sample_A, sample_B] \<and>
   graph_ok 1 1 (preprocess_identity sample_A) \<and> 0 < num_nodes (preprocess_identity sample_A) \<and>
   graph_ok 1 1 (preprocess_identity sample_B) \<and> 0 < num_nodes (preprocess_identity sample_B) \<and>
   np_max [7, 7] = np_min [7, 7] \<and>
   (\<exists>pairs. build_label_diff_dataset preprocess_identity [sample_A, sample_B] [7, 7] 3 sample_draws = Inr pairs \<and>
      length pairs = 3 \<and> data_y (pairs ! 2) = Some (Tensor1 [NaN]))"
proof -
  have h: "2 \<le> length [sample_A, sample_B]"
    "length [7, 7 :: real] = length [sample_A, sample_B]"
    "\<forall>g \<in> set [sample_A, sample_B]. graph_ok 1 1 (preprocess_identity g) \<and> 0 < num_nodes (preprocess_identity g)"
    "np_max [7, 7] = np_min [7, 7]"
    by (simp_all add: graph_ok_def sample_A_def sample_B_def num_nodes_def preprocess_identity_def)
  from degenerate_labels_give_nan [OF h, of 3 sample_draws]
  obtain pairs where p:
    "build_label_diff_dataset preprocess_identity [sample_A, sample_B] [7, 7] 3 sample_draws =
       Inr pairs"
    "length pairs = 3" "\<forall>t < 3. data_y (pairs ! t) = Some (Tensor1 [NaN])"
    by blast
  from p(3) have "data_y (pairs ! 2) = Some (Tensor1 [NaN])" by simp
  with h p(1,2) show ?thesis by auto
qed

text \<open>
  Claim C7 as stated expects an error and no pairs. With labels [7, 7] and one pair
  requested the call returns one joint graph, whose target is NaN.
\<close>

theorem degenerate_labels_counterexample:
  "np_max [7, 7] = np_min [7, 7] \<and>
   map_sum id (map data_y)
     (build_label_diff_dataset preprocess_identity [sample_A, sample_B] [7, 7] 1 sample_draws) =
   Inr [Some (Tensor1 [NaN])]"
  by (simp add: build_label_diff_dataset_def normalize_labels_def norm_label_def np_div_def
      random_sample2_def sample_draws_def index_e_def build_joint_graph_def sample_A_def
      sample_B_def num_nodes_def cross_edges_list_def cross_inner_def torch_tensor_def
      zeros2_def zeros1_def upt_rec preprocess_identity_def)

section \<open>Properties of GraphTransformerEncoder.forward\<close>

lemma upto_shift: "map (\<lambda>k. base + k) [i..j] = [base + i..base + j]"
proof (induction i j rule: upto.induct)
  case (1 i j)
  show ?case
  proof (cases "i \<le> j")
    case True
    then have "[i..j] = i # [i + 1..j]" "[base + i..base + j] = (base + i) # [base + i + 1..base + j]"
      by (simp_all add: upto_rec1)
    with 1 True show ?thesis by (simp add: add.assoc)
  next
    case False
    then show ?thesis by simp
  qed
qed

lemma count_list_replicate: "count_list (replicate n k) x = (if x = k then n else 0)"
  by (induction n) auto

lemma count_list_concat_replicate:
  "distinct ks \<Longrightarrow>
   count_list (concat (map (\<lambda>k. replicate (c k) k) ks)) x = (if x \<in> set ks then c x else 0)"
  by (induction ks) (auto simp: count_list_replicate)

lemma mset_concat_replicate:
  assumes "distinct ks" "set b \<subseteq> set ks"
  shows "mset (concat (map (\<lambda>k. replicate (count_list b k) k) ks)) = mset b"
proof (rule multiset_eqI)
  fix x
  show "count (mset (concat (map (\<lambda>k. replicate (count_list b k) k) ks))) x = count (mset b) x"
    using assms by (auto simp: count_mset count_list_concat_replicate count_list_0_iff)
qed

lemma sorted_concat_replicate:
  "sorted ks \<Longrightarrow> sorted (concat (map (\<lambda>k. replicate (c k) k) ks))"
  by (induction ks) (auto simp: sorted_append)

lemma concat_replicate_sorted:
  fixes b :: "int list"
  assumes "sorted b" "distinct ks" "sorted ks" "set b \<subseteq> set ks"
  shows "concat (map (\<lambda>k. replicate (count_list b k) k) ks) = b"
proof -
  have "sort b = concat (map (\<lambda>k. replicate (count_list b k) k) ks)"
    using mset_concat_replicate [OF assms(2,4)] sorted_concat_replicate [OF assms(3)]
    by (rule properties_for_sort)
  then show ?thesis using assms(1) by (simp add: sorted_sort_id)
qed

lemma concat_replicate_shift:
  "concat (map (\<lambda>k. replicate (c k) (f k)) ks) = map f (concat (map (\<lambda>k. replicate (c k) k) ks))"
  by (induction ks) simp_all

lemma map2_same:
  "map2 h (map f ks) (map g ks) = map (\<lambda>k. h (f k) (g k)) ks"
  by (induction ks) simp_all

lemma fold_max_Max:
  fixes v :: int
  shows "fold max vs v = Max (set (v # vs))"
  by (simp add: Max.set_eq_fold [symmetric])

lemma fold_max_nonneg:
  fixes b :: "int list"
  assumes "b \<noteq> []" "\<forall>v \<in> set b. 0 \<le> v"
  shows "fold max b (- 1) = Max (set b)"
proof -
  have "fold max b (- 1) = Max (insert (- 1) (set b))"
    using fold_max_Max [of b "- 1"] by simp
  also have "\<dots> = max (- 1) (Max (set b))"
    using assms(1) by (simp add: Max_insert)
  also have "\<dots> = Max (set b)"
  proof -
    obtain v where "v \<in> set b" using assms(1) by (cases b) auto
    then have "0 \<le> v" "v \<le> Max (set b)" using assms(2) by simp_all
    then show ?thesis by simp
  qed
  finally show ?thesis .
qed

lemma torch_max_Tensor1:
  "b \<noteq> [] \<Longrightarrow> torch_max (Tensor1 b) = Inr (Max (set b))"
  by (cases b) (simp_all add: fold_max_Max)

lemma Max_nonneg:
  fixes b :: "int list"
  assumes "b \<noteq> []" "\<forall>v \<in> set b. 0 \<le> v"
  shows "0 \<le> Max (set b)"
proof -
  obtain v where "v \<in> set b" using assms(1) by (cases b) auto
  then have "0 \<le> v" "v \<le> Max (set b)" using assms(2) by simp_all
  then show ?thesis by simp
qed

lemma set_subset_upto_Max:
  fixes b :: "int list"
  assumes "\<forall>v \<in> set b. 0 \<le> v"
  shows "set b \<subseteq> set [0..Max (set b)]"
  using assms by auto

lemma length_virtual_sources:
  assumes "\<forall>v \<in> set b. 0 \<le> v"
  shows "length (virtual_sources n_x b) = length b"
proof -
  have "mset (concat (map (\<lambda>k. replicate (count_list b k) k) [0..Max (set b)])) = mset b"
    using set_subset_upto_Max [OF assms] by (intro mset_concat_replicate) simp_all
  then have "length (concat (map (\<lambda>k. replicate (count_list b k) k) [0..Max (set b)])) = length b"
    by (metis size_mset)
  then show ?thesis by (simp add: virtual_sources_def)
qed

lemma virtual_sources_sorted:
  assumes "\<forall>v \<in> set b. 0 \<le> v" "sorted b"
  shows "virtual_sources n_x b = map (\<lambda>v. int n_x + v) b"
proof -
  have "concat (map (\<lambda>k. replicate (count_list b k) k) [0..Max (set b)]) = b"
    using set_subset_upto_Max [OF assms(1)] assms(2)
    by (intro concat_replicate_sorted) simp_all
  then show ?thesis by (simp add: virtual_sources_def)
qed

lemma bincount_Tensor1:
  assumes "b \<noteq> []" "\<forall>v \<in> set b. 0 \<le> v"
  shows "bincount (Tensor1 b) = Inr (Tensor1 (map (\<lambda>k. int (count_list b k)) [0..Max (set b)]))"
proof -
  have "\<not> list_ex (\<lambda>v. v < 0) b" using assms(2) by (auto simp: list_ex_iff)
  then show ?thesis by (simp add: fold_max_nonneg [OF assms])
qed

lemma repeat_interleave_counts:
  "repeat_interleave (Tensor1 [int n_x..int n_x + Max (set b)])
     (Tensor1 (map (\<lambda>k. int (count_list b k)) [0..Max (set b)])) =
   Inr (Tensor1 (virtual_sources n_x b))"
proof -
  let ?ks = "[0..Max (set b)]"
  have vi: "[int n_x..int n_x + Max (set b)] = map (\<lambda>k. int n_x + k) ?ks"
    by (simp add: upto_shift)
  have neg: "\<not> list_ex (\<lambda>r. r < 0) (map (\<lambda>k. int (count_list b k)) ?ks)"
    by (simp add: list_ex_iff)
  have "concat (map2 (\<lambda>v r. replicate (nat r) v) (map (\<lambda>k. int n_x + k) ?ks)
      (map (\<lambda>k. int (count_list b k)) ?ks)) = virtual_sources n_x b"
    unfolding map2_same virtual_sources_def
    by (simp add: concat_replicate_shift [of _ "\<lambda>k. int n_x + k"])
  then show ?thesis
    unfolding vi using neg by simp
qed

lemma length_upto_nat: "length [0..int n - 1] = n"
  by simp

lemma forward_augment_Inr:
  assumes out: "out_features (input_proj enc) = length (virtual_token enc)"
    and ea: "promote_edge_attr edge_attr = Some (Tensor2 F_edge attrs)"
    and rows: "length src = length dst"
    and ne: "b \<noteq> []" and nonneg: "\<forall>v \<in> set b. 0 \<le> v"
  shows "forward_augment enc (Tensor2 (in_features (input_proj enc)) xs) (Tensor2 E [src, dst])
           edge_attr (Tensor1 b) =
     Inr \<lparr> aug_x = Tensor2 (length (virtual_token enc))
                     (map (row_map (input_proj enc)) xs @
                      replicate (nat (Max (set b) + 1)) (virtual_token enc)),
           aug_edge_index = Tensor2 (E + length b + (length dst + length b))
             [src @ virtual_sources (length xs) b @ dst @ [0..int (length b) - 1],
              dst @ [0..int (length b) - 1] @ src @ virtual_sources (length xs) b],
           aug_edge_attr = Tensor2 F_edge
             (attrs @ replicate (length b) (replicate F_edge 0) @
              attrs @ replicate (length b) (replicate F_edge 0)),
           aug_batch = Tensor1 (b @ [0..Max (set b)]),
           aug_batch_size = Max (set b) + 1 \<rparr>"
proof -
  let ?m = "Max (set b)"
  have m: "0 \<le> ?m" using ne nonneg by (rule Max_nonneg)
  have rep: "repeat_token (virtual_token enc) (?m + 1) =
      Inr (Tensor2 (length (virtual_token enc)) (replicate (nat (?m + 1)) (virtual_token enc)))"
    using m by (simp add: repeat_token_def)
  have m1: "0 \<le> ?m + 1" using m by simp
  have vi: "arange (int (length xs)) (int (length xs) + (?m + 1)) =
      Inr (Tensor1 [int (length xs)..int (length xs) + ?m])"
    using m by (simp add: arange_def)
  have an: "arange 0 (int (length b)) = Inr (Tensor1 [0..int (length b) - 1])"
    by (simp add: arange_def)
  have ids: "arange 0 (?m + 1) = Inr (Tensor1 [0..?m])"
    using m by (simp add: arange_def)
  have len: "length (virtual_sources (length xs) b) = length b"
    using nonneg by (rule length_virtual_sources)
  show ?thesis
    unfolding forward_augment_def Let_def
    by (simp add: out ea rows torch_max_Tensor1 [OF ne] rep m1 vi an ids len
        bincount_Tensor1 [OF ne nonneg] repeat_interleave_counts zeros2_def
        del: bincount.simps repeat_interleave.simps torch_max.simps upto.simps)
qed

lemma run_layers_rows:
  assumes "layers_ok H a ls" and "length rs = len_t (aug_x a)" and "\<forall>r \<in> set rs. length r = H"
  shows "\<exists>rs'. run_layers ls (Tensor2 H rs) (aug_edge_index a) (aug_edge_attr a) =
                 Inr (Tensor2 H rs') \<and>
               length rs' = length rs \<and> (\<forall>r \<in> set rs'. length r = H)"
  using assms
proof (induction ls arbitrary: rs)
  case Nil
  then show ?case by simp
next
  case (Cons l ls)
  from Cons.prems obtain rs1 where l:
    "l (Tensor2 H rs) (aug_edge_index a) (aug_edge_attr a) = Inr (Tensor2 H rs1)"
    "length rs1 = length rs" "\<forall>r \<in> set rs1. length r = H"
    unfolding layers_ok_def by (metis list.set_intros(1))
  have "layers_ok H a ls" using Cons.prems(1) unfolding layers_ok_def by simp
  moreover have "length rs1 = len_t (aug_x a)" using l(2) Cons.prems(2) by simp
  ultimately obtain rs' where
    "run_layers ls (Tensor2 H rs1) (aug_edge_index a) (aug_edge_attr a) = Inr (Tensor2 H rs')"
    "length rs' = length rs1" "\<forall>r \<in> set rs'. length r = H"
    using Cons.IH [of rs1] l(3) by blast
  with l show ?case by simp
qed

lemma forward_Inr:
  assumes out: "out_features (input_proj enc) = length (virtual_token enc)"
    and hidden: "in_features (output_proj enc) = length (virtual_token enc)"
    and proj: "\<forall>r \<in> set xs. length (row_map (input_proj enc) r) = length (virtual_token enc)"
    and ly: "\<forall>a. forward_augment enc (Tensor2 (in_features (input_proj enc)) xs)
                 (Tensor2 E [src, dst]) edge_attr (Tensor1 b) = Inr a \<longrightarrow>
               layers_ok (length (virtual_token enc)) a (layers enc)"
    and ea: "promote_edge_attr edge_attr = Some (Tensor2 F_edge attrs)"
    and rows: "length src = length dst"
    and ne: "b \<noteq> []" and nonneg: "\<forall>v \<in> set b. 0 \<le> v"
  obtains a final where
    "forward_augment enc (Tensor2 (in_features (input_proj enc)) xs) (Tensor2 E [src, dst])
       edge_attr (Tensor1 b) = Inr a"
    "aug_x a = Tensor2 (length (virtual_token enc))
       (map (row_map (input_proj enc)) xs @
        replicate (nat (Max (set b) + 1)) (virtual_token enc))"
    "aug_batch a = Tensor1 (b @ [0..Max (set b)])"
    "run_layers (layers enc) (aug_x a) (aug_edge_index a) (aug_edge_attr a) =
       Inr (Tensor2 (length (virtual_token enc)) final)"
    "length final = length xs + nat (Max (set b) + 1)"
    "forward enc (Tensor2 (in_features (input_proj enc)) xs) (Tensor2 E [src, dst])
       edge_attr (Tensor1 b) =
     Inr (Tensor2 (out_features (output_proj enc))
            (map (row_map (output_proj enc)) (drop (length xs) final)))"
proof -
  let ?m = "Max (set b)" and ?H = "length (virtual_token enc)"
  let ?rs = "map (row_map (input_proj enc)) xs @ replicate (nat (?m + 1)) (virtual_token enc)"
  define a where "a = \<lparr> aug_x = Tensor2 ?H ?rs,
           aug_edge_index = Tensor2 (E + length b + (length dst + length b))
             [src @ virtual_sources (length xs) b @ dst @ [0..int (length b) - 1],
              dst @ [0..int (length b) - 1] @ src @ virtual_sources (length xs) b],
           aug_edge_attr = Tensor2 F_edge
             (attrs @ replicate (length b) (replicate F_edge 0) @
              attrs @ replicate (length b) (replicate F_edge 0)),
           aug_batch = Tensor1 (b @ [0..?m]),
           aug_batch_size = ?m + 1 \<rparr>"
  have A: "forward_augment enc (Tensor2 (in_features (input_proj enc)) xs) (Tensor2 E [src, dst])
       edge_attr (Tensor1 b) = Inr a"
    unfolding a_def by (rule forward_augment_Inr [OF out ea rows ne nonneg])
  have ax: "aug_x a = Tensor2 ?H ?rs" and ab: "aug_batch a = Tensor1 (b @ [0..?m])"
    and sz: "aug_batch_size a = ?m + 1"
    by (simp_all add: a_def)
  have m: "0 \<le> ?m" using ne nonneg by (rule Max_nonneg)
  have "layers_ok ?H a (layers enc)" using ly A by blast
  moreover have "length ?rs = len_t (aug_x a)" by (simp add: ax)
  moreover have "\<forall>r \<in> set ?rs. length r = ?H" using proj by auto
  ultimately obtain final where f:
    "run_layers (layers enc) (Tensor2 ?H ?rs) (aug_edge_index a) (aug_edge_attr a) =
       Inr (Tensor2 ?H final)"
    "length final = length ?rs"
    using run_layers_rows [of ?H a "layers enc" ?rs] by blast
  have fl: "length final = length xs + nat (?m + 1)" using f(2) by simp
  have sl: "slice_from (length final) (?m + 1) = length xs"
    using m by (simp add: slice_from_def fl)
  have fw: "forward enc (Tensor2 (in_features (input_proj enc)) xs) (Tensor2 E [src, dst])
       edge_attr (Tensor1 b) =
     Inr (Tensor2 (out_features (output_proj enc))
            (map (row_map (output_proj enc)) (drop (length xs) final)))"
    unfolding forward_def A using f(1) by (simp add: ax sz sl hidden drop_map)
  have rl: "run_layers (layers enc) (aug_x a) (aug_edge_index a) (aug_edge_attr a) =
       Inr (Tensor2 ?H final)"
    using f(1) by (simp only: ax)
  show thesis
    using A ax ab rl fl fw by (rule that)
qed

lemma nth_upto_0: "k < n \<Longrightarrow> [0..int n - 1] ! k = int k"
  by (simp add: nth_upto)

lemma zip_swap_mem: "(u, v) \<in> set (zip xs ys) \<longleftrightarrow> (v, u) \<in> set (zip ys xs)"
  by (auto simp: in_set_zip)

lemma nth_swapped:
  "bwd = map prod.swap fwd \<Longrightarrow> k < length fwd \<Longrightarrow> bwd ! k = prod.swap (fwd ! k)"
  by simp

lemma nth_second_copy:
  "length fwd = n \<Longrightarrow> k < length bwd \<Longrightarrow> (fwd @ bwd) ! (n + k) = bwd ! k"
  by (simp add: nth_append)

lemma nth_first_copy:
  "k < length fwd \<Longrightarrow> (fwd @ bwd) ! k = fwd ! k"
  by (simp add: nth_append)

lemma augmented_edges:
  assumes "length src = E" "length dst = E" "length rv = N" "length an = N"
  shows "edges_of (Tensor2 c [src @ rv @ dst @ an, dst @ an @ src @ rv]) =
           zip src dst @ zip rv an @ zip dst src @ zip an rv"
  using assms by simp

lemma forward_augment_edges:
  assumes out: "out_features (input_proj enc) = length (virtual_token enc)"
    and ea: "promote_edge_attr edge_attr = Some (Tensor2 F_edge attrs)"
    and src: "length src = E" and dst: "length dst = E"
    and ne: "b \<noteq> []" and nonneg: "\<forall>v \<in> set b. 0 \<le> v"
  obtains a where
    "forward_augment enc (Tensor2 (in_features (input_proj enc)) xs) (Tensor2 E [src, dst])
       edge_attr (Tensor1 b) = Inr a"
    "edges_of (aug_edge_index a) =
       (zip src dst @ zip (virtual_sources (length xs) b) [0..int (length b) - 1]) @
       (zip dst src @ zip [0..int (length b) - 1] (virtual_sources (length xs) b))"
    "aug_edge_attr a = Tensor2 F_edge
       ((attrs @ replicate (length b) (replicate F_edge 0)) @
        (attrs @ replicate (length b) (replicate F_edge 0)))"
    "size_t (aug_edge_index a) 1 = Inr (2 * (E + length b))"
proof -
  let ?N = "length b"
  let ?rv = "virtual_sources (length xs) b" and ?an = "[0..int ?N - 1]"
  have rows: "length src = length dst" using src dst by simp
  note A = forward_augment_Inr [OF out ea rows ne nonneg, of xs E]
  have len: "length ?rv = ?N" using nonneg by (rule length_virtual_sources)
  have lan: "length ?an = ?N" by simp
  have edges: "edges_of (Tensor2 (E + ?N + (length dst + ?N))
      [src @ ?rv @ dst @ ?an, dst @ ?an @ src @ ?rv]) =
      (zip src dst @ zip ?rv ?an) @ (zip dst src @ zip ?an ?rv)"
    using augmented_edges [OF src dst len lan] by simp
  show thesis
    by (rule that [OF A]) (simp_all only: augmented.simps edges append_assoc, simp add: dst)
qed

lemma virtual_sources_range:
  assumes "v \<in> set (virtual_sources n_x b)"
  shows "int n_x \<le> v \<and> v \<le> int n_x + Max (set b)"
  using assms unfolding virtual_sources_def by auto

text \<open>
  Claim C10: after the augmentation in \<open>forward\<close> the edge-attribute matrix has one row
  per column of the edge index, 2 (E + N) of them for E input edges and N real nodes. The
  first E edges and rows are the input edges and their features; the next N are the
  virtual-token edges, edge k of them from a virtual token to real node k, and their rows
  are all zero, of the width of the input edge features; and the reversed copy of edge k,
  at position E + N + k, carries the same row as edge k.
\<close>

theorem augmented_edge_attr_aligned:
  assumes "out_features (input_proj enc) = length (virtual_token enc)"
    and "promote_edge_attr edge_attr = Some (Tensor2 F_edge attrs)"
    and "length src = E" and "length dst = E" and "length attrs = E"
    and "b \<noteq> []" and "\<forall>v \<in> set b. 0 \<le> v"
  shows "\<exists>a rows edges.
           forward_augment enc (Tensor2 (in_features (input_proj enc)) xs) (Tensor2 E [src, dst])
             edge_attr (Tensor1 b) = Inr a \<and>
           aug_edge_attr a = Tensor2 F_edge rows \<and>
           edges = edges_of (aug_edge_index a) \<and>
           size_t (aug_edge_index a) 1 = Inr (2 * (E + length b)) \<and>
           length edges = 2 * (E + length b) \<and>
           length rows = 2 * (E + length b) \<and>
           take E edges = zip src dst \<and>
           take E rows = attrs \<and>
           take (length b) (drop E edges) =
             zip (virtual_sources (length xs) b) [0..int (length b) - 1] \<and>
           (\<forall>k < length b.
              snd (edges ! (E + k)) = int k \<and>
              int (length xs) \<le> fst (edges ! (E + k)) \<and>
              fst (edges ! (E + k)) \<le> int (length xs) + Max (set b)) \<and>
           take (length b) (drop E rows) = replicate (length b) (replicate F_edge 0) \<and>
           (\<forall>k < E + length b.
              edges ! (E + length b + k) = prod.swap (edges ! k) \<and>
              rows ! (E + length b + k) = rows ! k)"
proof -
  let ?N = "length b"
  let ?rv = "virtual_sources (length xs) b" and ?an = "[0..int ?N - 1]"
  let ?z = "replicate ?N (replicate F_edge (0::real))"
  let ?fwd = "zip src dst @ zip ?rv ?an" and ?bwd = "zip dst src @ zip ?an ?rv"
  obtain a where a:
    "forward_augment enc (Tensor2 (in_features (input_proj enc)) xs) (Tensor2 E [src, dst])
       edge_attr (Tensor1 b) = Inr a"
    "edges_of (aug_edge_index a) = ?fwd @ ?bwd"
    "aug_edge_attr a = Tensor2 F_edge ((attrs @ ?z) @ (attrs @ ?z))"
    "size_t (aug_edge_index a) 1 = Inr (2 * (E + ?N))"
    using assms(1-4,6,7) by (rule forward_augment_edges)
  have len: "length ?rv = ?N" using assms(7) by (rule length_virtual_sources)
  have lf: "length ?fwd = E + ?N" "length ?bwd = E + ?N"
    using assms(3,4) len by simp_all
  have la: "length (attrs @ ?z) = E + ?N" using assms(5) by simp
  have lz: "length (zip src dst) = E" using assms(3,4) by simp
  have le: "length (?fwd @ ?bwd) = 2 * (E + ?N)" using lf by simp
  have lr: "length ((attrs @ ?z) @ (attrs @ ?z)) = 2 * (E + ?N)" using la by simp
  have t_e: "take E (?fwd @ ?bwd) = zip src dst" using lz by simp
  have t_r: "take E ((attrs @ ?z) @ (attrs @ ?z)) = attrs" using assms(5) by simp
  have v_e: "take ?N (drop E (?fwd @ ?bwd)) = zip ?rv ?an" using lz len by simp
  have v_r: "take ?N (drop E ((attrs @ ?z) @ (attrs @ ?z))) = ?z" using assms(5) by simp
  have virt: "snd ((?fwd @ ?bwd) ! (E + k)) = int k \<and>
      int (length xs) \<le> fst ((?fwd @ ?bwd) ! (E + k)) \<and>
      fst ((?fwd @ ?bwd) ! (E + k)) \<le> int (length xs) + Max (set b)" if "k < ?N" for k
  proof -
    have "(?fwd @ ?bwd) ! (E + k) = zip ?rv ?an ! k"
      using that lz len by (simp add: nth_append)
    also have "\<dots> = (?rv ! k, ?an ! k)" using that len by simp
    finally have e: "(?fwd @ ?bwd) ! (E + k) = (?rv ! k, int k)"
      using that by (simp add: nth_upto_0)
    have "?rv ! k \<in> set ?rv" using that len by simp
    from virtual_sources_range [OF this] e show ?thesis by simp
  qed
  have swap: "?bwd ! k = prod.swap (?fwd ! k)" if "k < E + ?N" for k
  proof -
    have "?bwd = map prod.swap ?fwd"
      by (simp add: zip_commute [of dst src] zip_commute [of ?an ?rv] prod.swap_def
          case_prod_unfold)
    moreover have "k < length ?fwd" using that lf(1) by simp
    ultimately show ?thesis by (rule nth_swapped)
  qed
  have copy: "(?fwd @ ?bwd) ! (E + ?N + k) = prod.swap ((?fwd @ ?bwd) ! k) \<and>
      ((attrs @ ?z) @ (attrs @ ?z)) ! (E + ?N + k) = ((attrs @ ?z) @ (attrs @ ?z)) ! k"
    if "k < E + ?N" for k
  proof -
    have "(?fwd @ ?bwd) ! (E + ?N + k) = ?bwd ! k"
      using lf(1) that lf(2) by (intro nth_second_copy) simp_all
    moreover have "(?fwd @ ?bwd) ! k = ?fwd ! k"
      using that lf(1) by (intro nth_first_copy) simp
    moreover have "((attrs @ ?z) @ (attrs @ ?z)) ! (E + ?N + k) = (attrs @ ?z) ! k"
      using la that by (intro nth_second_copy) simp_all
    moreover have "((attrs @ ?z) @ (attrs @ ?z)) ! k = (attrs @ ?z) ! k"
      using that la by (intro nth_first_copy) simp
    ultimately show ?thesis using swap [OF that] by simp
  qed
  show ?thesis
  proof (intro exI conjI allI impI)
    show "forward_augment enc (Tensor2 (in_features (input_proj enc)) xs) (Tensor2 E [src, dst])
        edge_attr (Tensor1 b) = Inr a" by (rule a(1))
    show "aug_edge_attr a = Tensor2 F_edge ((attrs @ ?z) @ (attrs @ ?z))" by (rule a(3))
    show "?fwd @ ?bwd = edges_of (aug_edge_index a)" by (rule a(2) [symmetric])
    show "size_t (aug_edge_index a) 1 = Inr (2 * (E + ?N))" by (rule a(4))
    show "length (?fwd @ ?bwd) = 2 * (E + ?N)" by (rule le)
    show "length ((attrs @ ?z) @ (attrs @ ?z)) = 2 * (E + ?N)" by (rule lr)
    show "take E (?fwd @ ?bwd) = zip src dst" by (rule t_e)
    show "take E ((attrs @ ?z) @ (attrs @ ?z)) = attrs" by (rule t_r)
    show "take ?N (drop E (?fwd @ ?bwd)) = zip ?rv ?an" by (rule v_e)
    show "take ?N (drop E ((attrs @ ?z) @ (attrs @ ?z))) = ?z" by (rule v_r)
    show "snd ((?fwd @ ?bwd) ! (E + k)) = int k" if "k < ?N" for k
      using virt [OF that] by simp
    show "int (length xs) \<le> fst ((?fwd @ ?bwd) ! (E + k))" if "k < ?N" for k
      using virt [OF that] by simp
    show "fst ((?fwd @ ?bwd) ! (E + k)) \<le> int (length xs) + Max (set b)" if "k < ?N" for k
      using virt [OF that] by simp
    show "(?fwd @ ?bwd) ! (E + ?N + k) = prod.swap ((?fwd @ ?bwd) ! k)" if "k < E + ?N" for k
      using copy [OF that] by simp
    show "((attrs @ ?z) @ (attrs @ ?z)) ! (E + ?N + k) = ((attrs @ ?z) @ (attrs @ ?z)) ! k"
      if "k < E + ?N" for k
      using copy [OF that] by simp
  qed
qed

text \<open>The theorem at three nodes in two instances, one input edge, rank-one edge features.\<close>

theorem augmented_edge_attr_aligned_witness:
  "out_features (input_proj sample_encoder) = length (virtual_token sample_encoder) \<and>
   promote_edge_attr (Some (Tensor1 [5])) = Some (Tensor2 1 [[5]]) \<and>
   length [0::int] = 1 \<and> length [1::int] = 1 \<and> length [[5::real]] = 1 \<and>
   [0, 0, 1] \<noteq> ([] :: int list) \<and>
   (\<exists>a rows. forward_augment sample_encoder (Tensor2 1 [[1], [2], [3]]) (Tensor2 1 [[0], [1]])
        (Some (Tensor1 [5])) (Tensor1 [0, 0, 1]) = Inr a \<and>
      aug_edge_attr a = Tensor2 1 rows \<and> length rows = 8 \<and>
      size_t (aug_edge_index a) 1 = Inr 8 \<and>
      take 1 rows = [[5]] \<and> take 1 (edges_of (aug_edge_index a)) = [(0, 1)] \<and>
      take 3 (drop 1 rows) = [[0], [0], [0]] \<and> rows ! 4 = rows ! 0)"
proof -
  have h: "out_features (input_proj sample_encoder) = length (virtual_token sample_encoder)"
    "promote_edge_attr (Some (Tensor1 [5])) = Some (Tensor2 1 [[5]])"
    "length [0::int] = 1" "length [1::int] = 1" "length [[5::real]] = 1"
    "[0, 0, 1] \<noteq> ([] :: int list)" "\<forall>v \<in> set [0, 0, 1 :: int]. 0 \<le> v"
    by (simp_all add: sample_encoder_def promote_edge_attr_def)
  have i: "in_features (input_proj sample_encoder) = 1"
    by (simp add: sample_encoder_def)
  from augmented_edge_attr_aligned [OF h, of "[[1], [2], [3]]"]
  obtain a rows edges where r:
    "forward_augment sample_encoder
       (Tensor2 (in_features (input_proj sample_encoder)) [[1], [2], [3]])
       (Tensor2 1 [[0], [1]]) (Some (Tensor1 [5])) (Tensor1 [0, 0, 1]) = Inr a"
    "aug_edge_attr a = Tensor2 1 rows"
    "size_t (aug_edge_index a) 1 = Inr (2 * (1 + length [0, 0, 1 :: int]))"
    "edges = edges_of (aug_edge_index a)"
    "length rows = 2 * (1 + length [0, 0, 1 :: int])"
    "take 1 edges = zip [0] [1]" "take 1 rows = [[5]]"
    "take (length [0, 0, 1 :: int]) (drop 1 rows) =
       replicate (length [0, 0, 1 :: int]) (replicate 1 0)"
    "\<forall>k < 1 + length [0, 0, 1 :: int].
        edges ! (1 + length [0, 0, 1 :: int] + k) = prod.swap (edges ! k) \<and>
        rows ! (1 + length [0, 0, 1 :: int] + k) = rows ! k"
    by blast
  have "rows ! 4 = rows ! 0" using r(9) [rule_format, of 0] by (simp add: eval_nat_numeral)
  moreover have "take 3 (drop 1 rows) = [[0], [0], [0]]"
    using r(8) by (simp add: numeral_3_eq_3)
  moreover have "length rows = 8" "size_t (aug_edge_index a) 1 = Inr 8"
    using r(3,5) by simp_all
  moreover have "take 1 (edges_of (aug_edge_index a)) = [(0, 1)]"
    using r(6) by (simp add: r(4))
  ultimately show ?thesis using r(1,2,7) h(1-6) unfolding i by blast
qed

text \<open>
  Claim C2 (as amended): for every batch vector the augmented edge set contains the input
  edges and, with each of its edges, the reverse edge; and when the batch vector is sorted
  in non-decreasing order it contains, for every real node n, the edge from the virtual
  token of instance batch[n] to n.
\<close>

theorem virtual_token_edges_bidirectional:
  assumes "out_features (input_proj enc) = length (virtual_token enc)"
    and "promote_edge_attr edge_attr = Some (Tensor2 F_edge attrs)"
    and "length src = E" and "length dst = E"
    and "b \<noteq> []" and "\<forall>v \<in> set b. 0 \<le> v"
  shows "\<exists>a edges.
           forward_augment enc (Tensor2 (in_features (input_proj enc)) xs) (Tensor2 E [src, dst])
             edge_attr (Tensor1 b) = Inr a \<and>
           edges = edges_of (aug_edge_index a) \<and>
           set (zip src dst) \<subseteq> set edges \<and>
           (\<forall>u v. (u, v) \<in> set edges \<longrightarrow> (v, u) \<in> set edges) \<and>
           (sorted b \<longrightarrow> (\<forall>n < length b. (int (length xs) + b ! n, int n) \<in> set edges))"
proof -
  let ?N = "length b"
  let ?rv = "virtual_sources (length xs) b" and ?an = "[0..int ?N - 1]"
  let ?edges = "(zip src dst @ zip ?rv ?an) @ (zip dst src @ zip ?an ?rv)"
  obtain a where a:
    "forward_augment enc (Tensor2 (in_features (input_proj enc)) xs) (Tensor2 E [src, dst])
       edge_attr (Tensor1 b) = Inr a"
    "edges_of (aug_edge_index a) = ?edges"
    using assms by (rule forward_augment_edges)
  have len: "length ?rv = ?N" using assms(6) by (rule length_virtual_sources)
  have virt: "(int (length xs) + b ! n, int n) \<in> set ?edges" if "sorted b" "n < ?N" for n
  proof -
    have "?rv ! n = int (length xs) + b ! n"
      using that by (simp add: virtual_sources_sorted [OF assms(6)])
    moreover have "?an ! n = int n" using that(2) by (rule nth_upto_0)
    ultimately have "zip ?rv ?an ! n = (int (length xs) + b ! n, int n)"
      using that(2) len by simp
    moreover have "n < length (zip ?rv ?an)" using that(2) len by simp
    ultimately have "(int (length xs) + b ! n, int n) \<in> set (zip ?rv ?an)"
      by (metis nth_mem)
    then show ?thesis by simp
  qed
  have sym: "(v, u) \<in> set ?edges" if "(u, v) \<in> set ?edges" for u v
    using that zip_swap_mem [of u v src dst] zip_swap_mem [of u v ?rv ?an]
      zip_swap_mem [of u v dst src] zip_swap_mem [of u v ?an ?rv]
    by auto
  show ?thesis
  proof (intro exI conjI allI impI)
    show "forward_augment enc (Tensor2 (in_features (input_proj enc)) xs) (Tensor2 E [src, dst])
        edge_attr (Tensor1 b) = Inr a" by (rule a(1))
    show "?edges = edges_of (aug_edge_index a)" by (rule a(2) [symmetric])
    show "set (zip src dst) \<subseteq> set ?edges" by auto
    show "(v, u) \<in> set ?edges" if "(u, v) \<in> set ?edges" for u v
      using that by (rule sym)
    show "(int (length xs) + b ! n, int n) \<in> set ?edges" if "sorted b" "n < ?N" for n
      using that by (rule virt)
  qed
qed

text \<open>
  The theorem at the sorted batch vector [0, 0, 1]: the input edge (0, 1) and its reverse,
  and for node 2 the edge from virtual token 4 = 3 + 1 and its reverse.
\<close>

theorem virtual_token_edges_bidirectional_witness:
  "out_features (input_proj sample_encoder) = length (virtual_token sample_encoder) \<and>
   promote_edge_attr (Some (Tensor1 [5])) = Some (Tensor2 1 [[5]]) \<and>
   length [0::int] = 1 \<and> length [1::int] = 1 \<and>
   [0, 0, 1] \<noteq> ([] :: int list) \<and> sorted [0, 0, 1 :: int] \<and>
   (\<exists>a. forward_augment sample_encoder (Tensor2 1 [[1], [2], [3]]) (Tensor2 1 [[0], [1]])
        (Some (Tensor1 [5])) (Tensor1 [0, 0, 1]) = Inr a \<and>
      (0, 1) \<in> set (edges_of (aug_edge_index a)) \<and>
      (1, 0) \<in> set (edges_of (aug_edge_index a)) \<and>
      (4, 2) \<in> set (edges_of (aug_edge_index a)) \<and>
      (2, 4) \<in> set (edges_of (aug_edge_index a)))"
proof -
  have h: "out_features (input_proj sample_encoder) = length (virtual_token sample_encoder)"
    "promote_edge_attr (Some (Tensor1 [5])) = Some (Tensor2 1 [[5]])"
    "length [0::int] = 1" "length [1::int] = 1"
    "[0, 0, 1] \<noteq> ([] :: int list)" "\<forall>v \<in> set [0, 0, 1 :: int]. 0 \<le> v"
    by (simp_all add: sample_encoder_def promote_edge_attr_def)
  have s: "sorted [0, 0, 1 :: int]" by simp
  have i: "in_features (input_proj sample_encoder) = 1"
    by (simp add: sample_encoder_def)
  from virtual_token_edges_bidirectional [OF h, of "[[1], [2], [3]]"]
  obtain a where r:
    "forward_augment sample_encoder (Tensor2 1 [[1], [2], [3]]) (Tensor2 1 [[0], [1]])
        (Some (Tensor1 [5])) (Tensor1 [0, 0, 1]) = Inr a"
    "set (zip [0] [1 :: int]) \<subseteq> set (edges_of (aug_edge_index a))"
    "\<forall>u v. (u, v) \<in> set (edges_of (aug_edge_index a)) \<longrightarrow>
        (v, u) \<in> set (edges_of (aug_edge_index a))"
    "sorted [0, 0, 1 :: int] \<longrightarrow> (\<forall>n < length [0, 0, 1 :: int].
        (int (length [[1], [2], [3 :: real]]) + [0, 0, 1] ! n, int n)
          \<in> set (edges_of (aug_edge_index a)))"
    unfolding i by blast
  have e1: "(0, 1) \<in> set (edges_of (aug_edge_index a))" using r(2) by simp
  have e2: "(4, 2) \<in> set (edges_of (aug_edge_index a))"
    using r(4) [rule_format, OF s, of 2] by simp
  from e1 e2 r(3) have "(1, 0) \<in> set (edges_of (aug_edge_index a))"
    "(2, 4) \<in> set (edges_of (aug_edge_index a))" by blast+
  with e1 e2 show ?thesis using r(1) h(1-5) s by blast
qed

text \<open>
  Claim C2 as stated is about every batch vector. With batch = [1, 0] node 0 belongs to
  instance 1, whose virtual token is node 2 + 1 = 3, but the edge (3, 0) is not among the
  augmented edges: node 0 is wired to node 2, the virtual token of instance 0.
\<close>

theorem virtual_token_edges_counterexample:
  "map_sum id (edges_of \<circ> aug_edge_index)
     (forward_augment sample_encoder (Tensor2 1 [[1], [2]]) (Tensor2 1 [[0], [1]])
        (Some (Tensor1 [5])) (Tensor1 [1, 0])) =
     Inr [(0, 1), (2, 0), (3, 1), (1, 0), (0, 2), (1, 3)] \<and>
   (2 + [1, 0 :: int] ! 0, 0 :: int) \<notin> set [(0, 1), (2, 0), (3, 1), (1, 0), (0, 2), (1, 3)]"
  by (simp add: forward_augment_def sample_encoder_def promote_edge_attr_def repeat_token_def
      arange_def zeros2_def upto_rec1)

lemma dense_batch:
  fixes b :: "int list"
  assumes "b \<noteq> []" "set b = {0..<B}"
  shows "\<forall>v \<in> set b. 0 \<le> v" "Max (set b) = B - 1" "card (set b) = nat B" "0 < B"
proof -
  show nonneg: "\<forall>v \<in> set b. 0 \<le> v" using assms(2) by simp
  obtain v where "v \<in> set b" using assms(1) by (cases b) auto
  then show pos: "0 < B" using assms(2) by auto
  have "Max {0..<B} = B - 1" using pos by (intro Max_eqI) auto
  then show "Max (set b) = B - 1" using assms(2) by simp
  show "card (set b) = nat B" using assms(2) by simp
qed

lemma sample_layers_ok:
  assumes "aug_edge_index a = Tensor2 e idx" and "aug_edge_attr a = Tensor2 1 es"
    and "length es = e"
  shows "layers_ok 1 a [sample_layer, sample_layer]"
  using assms unfolding layers_ok_def by (auto simp: list_all_iff)

text \<open>
  Claim C4: for a batch vector that is a dense range 0..B-1, \<open>forward\<close> returns exactly B
  rows, one per distinct instance id, and row k is the output projection of the final
  representation of node N + k, the virtual token appended for instance k. The attention
  layers are assumed to accept the augmented graph that \<open>forward\<close> passes them.
\<close>

theorem forward_rows_per_instance:
  assumes "out_features (input_proj enc) = length (virtual_token enc)"
    and "in_features (output_proj enc) = length (virtual_token enc)"
    and "\<forall>r \<in> set xs. length (row_map (input_proj enc) r) = length (virtual_token enc)"
    and "\<forall>a. forward_augment enc (Tensor2 (in_features (input_proj enc)) xs)
               (Tensor2 E [src, dst]) edge_attr (Tensor1 b) = Inr a \<longrightarrow>
             layers_ok (length (virtual_token enc)) a (layers enc)"
    and "promote_edge_attr edge_attr = Some (Tensor2 F_edge attrs)"
    and "length src = length dst"
    and "length xs = length b"
    and "b \<noteq> []" and "set b = {0..<B}"
  shows "\<exists>a final out_rows.
           forward_augment enc (Tensor2 (in_features (input_proj enc)) xs) (Tensor2 E [src, dst])
             edge_attr (Tensor1 b) = Inr a \<and>
           run_layers (layers enc) (aug_x a) (aug_edge_index a) (aug_edge_attr a) =
             Inr (Tensor2 (length (virtual_token enc)) final) \<and>
           forward enc (Tensor2 (in_features (input_proj enc)) xs) (Tensor2 E [src, dst])
             edge_attr (Tensor1 b) = Inr (Tensor2 (out_features (output_proj enc)) out_rows) \<and>
           length out_rows = nat B \<and> card (set b) = nat B \<and>
           (\<forall>k < nat B.
              out_rows ! k = row_map (output_proj enc) (final ! (length b + k)) \<and>
              rows_of (aug_x a) ! (length b + k) = virtual_token enc \<and>
              entries_of (aug_batch a) ! (length b + k) = int k)"
proof -
  note d = dense_batch [OF assms(8,9)]
  have m: "Max (set b) + 1 = B" using d(2) by simp
  obtain a final where r:
    "forward_augment enc (Tensor2 (in_features (input_proj enc)) xs) (Tensor2 E [src, dst])
       edge_attr (Tensor1 b) = Inr a"
    "aug_x a = Tensor2 (length (virtual_token enc))
       (map (row_map (input_proj enc)) xs @
        replicate (nat (Max (set b) + 1)) (virtual_token enc))"
    "aug_batch a = Tensor1 (b @ [0..Max (set b)])"
    "run_layers (layers enc) (aug_x a) (aug_edge_index a) (aug_edge_attr a) =
       Inr (Tensor2 (length (virtual_token enc)) final)"
    "length final = length xs + nat (Max (set b) + 1)"
    "forward enc (Tensor2 (in_features (input_proj enc)) xs) (Tensor2 E [src, dst])
       edge_attr (Tensor1 b) =
     Inr (Tensor2 (out_features (output_proj enc))
            (map (row_map (output_proj enc)) (drop (length xs) final)))"
    using forward_Inr [OF assms(1-6) assms(8) d(1)] by blast
  let ?out = "map (row_map (output_proj enc)) (drop (length xs) final)"
  have len: "length ?out = nat B" using r(5) m by simp
  have rows: "?out ! k = row_map (output_proj enc) (final ! (length b + k)) \<and>
      rows_of (aug_x a) ! (length b + k) = virtual_token enc \<and>
      entries_of (aug_batch a) ! (length b + k) = int k" if "k < nat B" for k
  proof -
    have "?out ! k = row_map (output_proj enc) (final ! (length b + k))"
      using that r(5) m assms(7) by simp
    moreover have "rows_of (aug_x a) ! (length b + k) = virtual_token enc"
      using that m assms(7) by (simp add: r(2) nth_append)
    moreover have "[0..Max (set b)] ! k = int k"
      using that d(2) by (simp add: nth_upto)
    then have "entries_of (aug_batch a) ! (length b + k) = int k"
      by (simp add: r(3) nth_append)
    ultimately show ?thesis by simp
  qed
  show ?thesis
    using r(1,4,6) len d(3) rows
    by (intro exI [of _ a] exI [of _ final] exI [of _ ?out] conjI allI impI) simp_all
qed

text \<open>
  The theorem at the batch vector [0, 0, 1], B = 2, with two layers configured for the
  hidden width.
\<close>

theorem forward_rows_per_instance_witness:
  "out_features (input_proj sample_encoder) = length (virtual_token sample_encoder) \<and>
   in_features (output_proj sample_encoder) = length (virtual_token sample_encoder) \<and>
   promote_edge_attr (Some (Tensor1 [5])) = Some (Tensor2 1 [[5]]) \<and>
   length [0::int] = length [1::int] \<and> length [[1], [2], [3::real]] = length [0, 0, 1::int] \<and>
   [0, 0, 1] \<noteq> ([] :: int list) \<and> set [0, 0, 1] = {0..<2::int} \<and>
   (\<exists>out_rows. forward sample_encoder (Tensor2 1 [[1], [2], [3]]) (Tensor2 1 [[0], [1]])
        (Some (Tensor1 [5])) (Tensor1 [0, 0, 1]) = Inr (Tensor2 1 out_rows) \<and>
      length out_rows = 2)"
proof -
  have i: "in_features (input_proj sample_encoder) = 1"
    "out_features (output_proj sample_encoder) = 1"
    "length (virtual_token sample_encoder) = 1"
    "layers sample_encoder = [sample_layer, sample_layer]"
    by (simp_all add: sample_encoder_def)
  have h: "out_features (input_proj sample_encoder) = length (virtual_token sample_encoder)"
    "in_features (output_proj sample_encoder) = length (virtual_token sample_encoder)"
    "\<forall>r \<in> set [[1], [2], [3::real]].
        length (row_map (input_proj sample_encoder) r) = length (virtual_token sample_encoder)"
    by (simp_all add: sample_encoder_def)
  have aug: "forward_augment sample_encoder
      (Tensor2 (in_features (input_proj sample_encoder)) [[1], [2], [3]])
      (Tensor2 1 [[0], [1]]) (Some (Tensor1 [5])) (Tensor1 [0, 0, 1]) =
    Inr \<lparr> aug_x = Tensor2 1 [[1], [2], [3], [9], [9]],
          aug_edge_index = Tensor2 8 [[0, 3, 3, 4, 1, 0, 1, 2], [1, 0, 1, 2, 0, 3, 3, 4]],
          aug_edge_attr = Tensor2 1 [[5], [0], [0], [0], [5], [0], [0], [0]],
          aug_batch = Tensor1 [0, 0, 1, 0, 1], aug_batch_size = 2 \<rparr>"
    by (simp add: forward_augment_def sample_encoder_def promote_edge_attr_def repeat_token_def
        arange_def zeros2_def upto_rec1 eval_nat_numeral)
  have ly: "\<forall>a. forward_augment sample_encoder
        (Tensor2 (in_features (input_proj sample_encoder)) [[1], [2], [3]])
        (Tensor2 1 [[0], [1]]) (Some (Tensor1 [5])) (Tensor1 [0, 0, 1]) = Inr a \<longrightarrow>
      layers_ok (length (virtual_token sample_encoder)) a (layers sample_encoder)"
  proof (intro allI impI)
    fix a
    assume "forward_augment sample_encoder
        (Tensor2 (in_features (input_proj sample_encoder)) [[1], [2], [3]])
        (Tensor2 1 [[0], [1]]) (Some (Tensor1 [5])) (Tensor1 [0, 0, 1]) = Inr a"
    then have a: "aug_edge_index a = Tensor2 8 [[0, 3, 3, 4, 1, 0, 1, 2], [1, 0, 1, 2, 0, 3, 3, 4]]"
      "aug_edge_attr a = Tensor2 1 [[5], [0], [0], [0], [5], [0], [0], [0]]"
      unfolding aug by auto
    show "layers_ok (length (virtual_token sample_encoder)) a (layers sample_encoder)"
      unfolding i(3,4) using a by (rule sample_layers_ok) simp
  qed
  have g: "promote_edge_attr (Some (Tensor1 [5])) = Some (Tensor2 1 [[5]])"
    "length [0::int] = length [1::int]" "length [[1], [2], [3::real]] = length [0, 0, 1::int]"
    "[0, 0, 1] \<noteq> ([] :: int list)" "set [0, 0, 1] = {0..<2::int}"
    by (auto simp: promote_edge_attr_def)
  have two: "nat 2 = 2" by simp
  from forward_rows_per_instance [OF h ly g]
  obtain out_rows where
    "forward sample_encoder (Tensor2 1 [[1], [2], [3]]) (Tensor2 1 [[0], [1]])
        (Some (Tensor1 [5])) (Tensor1 [0, 0, 1]) = Inr (Tensor2 1 out_rows)"
    "length out_rows = 2"
    unfolding i two by blast
  then show ?thesis using h(1,2) g by blast
qed

lemma virtual_sources_empty_instance:
  assumes "count_list b k = 0"
  shows "int n_x + k \<notin> set (virtual_sources n_x b)"
proof -
  have "count_list (concat (map (\<lambda>j. replicate (count_list b j) j) [0..Max (set b)])) k = 0"
    using assms by (simp add: count_list_concat_replicate)
  then have "k \<notin> set (concat (map (\<lambda>j. replicate (count_list b j) j) [0..Max (set b)]))"
    by (metis count_list_0_iff)
  then show ?thesis
    unfolding virtual_sources_def by auto
qed

text \<open>
  Claim C5 (as amended): when an instance id k below the largest id of the batch vector has
  zero real nodes, \<open>forward\<close> does not fail: it returns max(batch) + 1 rows, one of them for
  the empty instance k, whose virtual token is the source of no virtual-token edge. The
  attention layers are assumed to accept the augmented graph that \<open>forward\<close> passes them.
\<close>

theorem forward_empty_instance:
  assumes "out_features (input_proj enc) = length (virtual_token enc)"
    and "in_features (output_proj enc) = length (virtual_token enc)"
    and "\<forall>r \<in> set xs. length (row_map (input_proj enc) r) = length (virtual_token enc)"
    and "\<forall>a. forward_augment enc (Tensor2 (in_features (input_proj enc)) xs)
               (Tensor2 E [src, dst]) edge_attr (Tensor1 b) = Inr a \<longrightarrow>
             layers_ok (length (virtual_token enc)) a (layers enc)"
    and "promote_edge_attr edge_attr = Some (Tensor2 F_edge attrs)"
    and "length src = E" and "length dst = E"
    and "b \<noteq> []" and "\<forall>v \<in> set b. 0 \<le> v"
    and "0 \<le> k" and "k < Max (set b)" and "count_list b k = 0"
  shows "\<exists>a out_rows.
           forward_augment enc (Tensor2 (in_features (input_proj enc)) xs) (Tensor2 E [src, dst])
             edge_attr (Tensor1 b) = Inr a \<and>
           forward enc (Tensor2 (in_features (input_proj enc)) xs) (Tensor2 E [src, dst])
             edge_attr (Tensor1 b) = Inr (Tensor2 (out_features (output_proj enc)) out_rows) \<and>
           length out_rows = nat (Max (set b) + 1) \<and>
           nat k < length out_rows \<and>
           (\<forall>n. (int (length xs) + k, n) \<notin>
                  set (take (length b) (drop E (edges_of (aug_edge_index a)))))"
proof -
  let ?N = "length b"
  let ?rv = "virtual_sources (length xs) b" and ?an = "[0..int ?N - 1]"
  have rows: "length src = length dst" using assms(6,7) by simp
  note A = forward_augment_Inr [OF assms(1,5) rows assms(8,9), of xs E]
  obtain a final where r:
    "forward_augment enc (Tensor2 (in_features (input_proj enc)) xs) (Tensor2 E [src, dst])
       edge_attr (Tensor1 b) = Inr a"
    "length final = length xs + nat (Max (set b) + 1)"
    "forward enc (Tensor2 (in_features (input_proj enc)) xs) (Tensor2 E [src, dst])
       edge_attr (Tensor1 b) =
     Inr (Tensor2 (out_features (output_proj enc))
            (map (row_map (output_proj enc)) (drop (length xs) final)))"
    using forward_Inr [OF assms(1-5) rows assms(8,9)] by blast
  have len: "length ?rv = ?N" using assms(9) by (rule length_virtual_sources)
  have lan: "length ?an = ?N" by simp
  have "edges_of (aug_edge_index a) = zip src dst @ zip ?rv ?an @ zip dst src @ zip ?an ?rv"
    using r(1) augmented_edges [OF assms(6,7) len lan] unfolding A by auto
  then have virt: "take ?N (drop E (edges_of (aug_edge_index a))) = zip ?rv ?an"
    using assms(6,7) len by simp
  have no_edge: "(int (length xs) + k, n) \<notin> set (take ?N (drop E (edges_of (aug_edge_index a))))"
    for n
    unfolding virt using virtual_sources_empty_instance [OF assms(12), of "length xs"]
    by (auto dest: set_zip_leftD)
  have "length (map (row_map (output_proj enc)) (drop (length xs) final)) =
      nat (Max (set b) + 1)"
    using r(2) by simp
  moreover have "nat k < nat (Max (set b) + 1)" using assms(10,11) by simp
  ultimately show ?thesis using r(1,3) no_edge by auto
qed

text \<open>
  The theorem at the batch vector [0, 2], where instance 1 is empty, with two layers
  configured for the hidden width.
\<close>

theorem forward_empty_instance_witness:
  "out_features (input_proj sample_encoder) = length (virtual_token sample_encoder) \<and>
   in_features (output_proj sample_encoder) = length (virtual_token sample_encoder) \<and>
   promote_edge_attr (Some (Tensor1 [5])) = Some (Tensor2 1 [[5]]) \<and>
   length [0::int] = 1 \<and> length [1::int] = 1 \<and> [0, 2] \<noteq> ([] :: int list) \<and>
   (0::int) \<le> 1 \<and> 1 < Max (set [0, 2 :: int]) \<and> count_list [0, 2 :: int] 1 = 0 \<and>
   (\<exists>out_rows. forward sample_encoder (Tensor2 1 [[1], [2]]) (Tensor2 1 [[0], [1]])
        (Some (Tensor1 [5])) (Tensor1 [0, 2]) = Inr (Tensor2 1 out_rows) \<and>
      length out_rows = 3)"
proof -
  have i: "in_features (input_proj sample_encoder) = 1"
    "out_features (output_proj sample_encoder) = 1"
    "length (virtual_token sample_encoder) = 1"
    "layers sample_encoder = [sample_layer, sample_layer]"
    by (simp_all add: sample_encoder_def)
  have h: "out_features (input_proj sample_encoder) = length (virtual_token sample_encoder)"
    "in_features (output_proj sample_encoder) = length (virtual_token sample_encoder)"
    "\<forall>r \<in> set [[1], [2::real]].
        length (row_map (input_proj sample_encoder) r) = length (virtual_token sample_encoder)"
    by (simp_all add: sample_encoder_def)
  have aug: "forward_augment sample_encoder
      (Tensor2 (in_features (input_proj sample_encoder)) [[1], [2]])
      (Tensor2 1 [[0], [1]]) (Some (Tensor1 [5])) (Tensor1 [0, 2]) =
    Inr \<lparr> aug_x = Tensor2 1 [[1], [2], [9], [9], [9]],
          aug_edge_index = Tensor2 6 [[0, 2, 4, 1, 0, 1], [1, 0, 1, 0, 2, 4]],
          aug_edge_attr = Tensor2 1 [[5], [0], [0], [5], [0], [0]],
          aug_batch = Tensor1 [0, 2, 0, 1, 2], aug_batch_size = 3 \<rparr>"
    by (simp add: forward_augment_def sample_encoder_def promote_edge_attr_def repeat_token_def
        arange_def zeros2_def upto_rec1 eval_nat_numeral)
  have ly: "\<forall>a. forward_augment sample_encoder
        (Tensor2 (in_features (input_proj sample_encoder)) [[1], [2]])
        (Tensor2 1 [[0], [1]]) (Some (Tensor1 [5])) (Tensor1 [0, 2]) = Inr a \<longrightarrow>
      layers_ok (length (virtual_token sample_encoder)) a (layers sample_encoder)"
  proof (intro allI impI)
    fix a
    assume "forward_augment sample_encoder
        (Tensor2 (in_features (input_proj sample_encoder)) [[1], [2]])
        (Tensor2 1 [[0], [1]]) (Some (Tensor1 [5])) (Tensor1 [0, 2]) = Inr a"
    then have a: "aug_edge_index a = Tensor2 6 [[0, 2, 4, 1, 0, 1], [1, 0, 1, 0, 2, 4]]"
      "aug_edge_attr a = Tensor2 1 [[5], [0], [0], [5], [0], [0]]"
      unfolding aug by auto
    show "layers_ok (length (virtual_token sample_encoder)) a (layers sample_encoder)"
      unfolding i(3,4) using a by (rule sample_layers_ok) simp
  qed
  have g: "promote_edge_attr (Some (Tensor1 [5])) = Some (Tensor2 1 [[5]])"
    "length [0::int] = 1" "length [1::int] = 1" "[0, 2] \<noteq> ([] :: int list)"
    "\<forall>v \<in> set [0, 2 :: int]. 0 \<le> v"
    "(0::int) \<le> 1" "1 < Max (set [0, 2 :: int])" "count_list [0, 2 :: int] 1 = 0"
    by (auto simp: promote_edge_attr_def)
  from forward_empty_instance [OF h ly g]
  obtain out_rows where
    "forward sample_encoder (Tensor2 1 [[1], [2]]) (Tensor2 1 [[0], [1]])
        (Some (Tensor1 [5])) (Tensor1 [0, 2]) = Inr (Tensor2 1 out_rows)"
    "length out_rows = nat (Max (set [0, 2 :: int]) + 1)"
    unfolding i by blast
  moreover have "nat (Max (set [0, 2 :: int]) + 1) = 3" by simp
  ultimately have "\<exists>out_rows. forward sample_encoder (Tensor2 1 [[1], [2]]) (Tensor2 1 [[0], [1]])
        (Some (Tensor1 [5])) (Tensor1 [0, 2]) = Inr (Tensor2 1 out_rows) \<and>
      length out_rows = 3" by auto
  then show ?thesis using h(1,2) g(1-4,6-8) by blast
qed

text \<open>
  Claim C5 as stated expects an error. With batch = [0, 2] instance 1 has no node, and
  \<open>forward\<close> returns three rows: the virtual token 9, doubled by each of the two layers.
\<close>

theorem forward_empty_instance_counterexample:
  "count_list [0, 2 :: int] 1 = 0 \<and>
   forward sample_encoder (Tensor2 1 [[1], [2]]) (Tensor2 1 [[0], [1]])
     (Some (Tensor1 [5])) (Tensor1 [0, 2]) = Inr (Tensor2 1 [[36], [36], [36]])"
  by (simp add: forward_def forward_augment_def sample_encoder_def promote_edge_attr_def
      repeat_token_def arange_def zeros2_def upto_rec1 slice_from_def numeral_3_eq_3)

end
